theory Spec2Isabelle
  imports Complex_Main "HOL-Library.Char_ord" "HOL-Library.List_Lexorder"
begin

section \<open>Numbers and strings\<close>

text \<open>
  Amounts and percentages are JavaScript numbers in the source. They are modelled as exact
  rationals: the arithmetic of the source (\<open>+\<close>, \<open>-\<close>, \<open>*\<close>, \<open>/\<close>, comparison) is read
  without floating-point rounding error, and \<open>NaN\<close> does not arise.
  \<open>Math.round\<close> rounds to the nearest integer, halves towards plus infinity.
\<close>

definition Math_round :: "rat \<Rightarrow> int" where
  "Math_round x = \<lfloor>x + 1 / 2\<rfloor>"

text \<open>
  A string is a list of code units below 256 (the Latin-1 range, which \<open>toLowerCase\<close> and
  \<open>trim\<close> map into itself). \<open>trim\<close> removes the white space and line terminators of
  that range from both ends: TAB, LF, VT, FF, CR, SP and NBSP.
\<close>

definition isWhiteSpace :: "char \<Rightarrow> bool" where
  "isWhiteSpace c = ((of_char c :: nat) \<in> {9, 10, 11, 12, 13, 32, 160})"

definition trim :: "string \<Rightarrow> string" where
  "trim s = rev (dropWhile isWhiteSpace (rev (dropWhile isWhiteSpace s)))"

definition lowerChar :: "char \<Rightarrow> char" where
  "lowerChar c =
     (let n = (of_char c :: nat)
      in if (65 \<le> n \<and> n \<le> 90) \<or> (192 \<le> n \<and> n \<le> 222 \<and> n \<noteq> 215)
         then char_of (n + 32) else c)"

definition toLowerCase :: "string \<Rightarrow> string" where
  "toLowerCase s = map lowerChar s"

text \<open>\<open>x || d\<close> on an optional string: \<open>undefined\<close>, \<open>null\<close> and \<open>''\<close> are falsy.\<close>

definition orElse :: "string option \<Rightarrow> string \<Rightarrow> string" where
  "orElse x d = (case x of None \<Rightarrow> d | Some s \<Rightarrow> if s = [] then d else s)"

definition truthy :: "string option \<Rightarrow> bool" where
  "truthy x = (case x of None \<Rightarrow> False | Some s \<Rightarrow> s \<noteq> [])"

section \<open>AnalyticsService: pure helpers\<close>

subsection \<open>normalizePaymentMethod\<close>

definition normalizePaymentMethod :: "string option \<Rightarrow> string" where
  "normalizePaymentMethod method =
     (let key = toLowerCase (trim (orElse method ''unknown''))
      in if key = ''card'' \<or> key = ''pos'' \<or> key = ''bank_card'' \<or> key = ''debit_card''
            \<or> key = ''credit_card'' then ''pos''
         else if key = ''transfer'' \<or> key = ''naira_transfer'' \<or> key = ''bank_transfer''
           then ''naira_transfer''
         else if key = ''crypto'' \<or> key = ''crypto_payment'' then ''crypto_payment''
         else if key = ''cash_on_delivery'' \<or> key = ''cod'' \<or> key = ''cash'' then ''cash''
         else if key = [] then ''unknown'' else key)"

text \<open>
  The payment-method breakdown of the dashboard: the rows of the grouped aggregation
  (\<open>_id\<close>, which may be null, and \<open>totalAmount\<close>) are folded into an object keyed by the
  normalized method.
\<close>

fun collapsePaymentMethods ::
  "(string \<rightharpoonup> rat) \<Rightarrow> (string option \<times> rat) list \<Rightarrow> (string \<rightharpoonup> rat)" where
  "collapsePaymentMethods paymentMethodsData [] = paymentMethodsData"
| "collapsePaymentMethods paymentMethodsData ((item_id, totalAmount) # rest) =
     (let normalized = normalizePaymentMethod item_id
      in collapsePaymentMethods
           (paymentMethodsData(normalized \<mapsto>
              (case paymentMethodsData normalized of None \<Rightarrow> 0 | Some v \<Rightarrow> v) + totalAmount))
           rest)"

subsection \<open>calculatePercentageChange\<close>

definition calculatePercentageChange :: "rat \<Rightarrow> rat \<Rightarrow> rat" where
  "calculatePercentageChange oldValue newValue =
     (if oldValue = 0 then (if newValue > 0 then 100 else 0)
      else (let percentageChange = ((newValue - oldValue) / oldValue) * 100
            in of_int (Math_round (percentageChange * 100)) / 100))"

record deltas =
  salesDelta :: rat
  expensesDelta :: rat
  profitDelta :: rat
  transactionsDelta :: rat

text \<open>
  The tail of \<open>calculateVsPreviousPeriodMetrics\<close> and of \<open>calculateVsYesterdayMetrics\<close>,
  once the totals of the two periods are known: profit is sales minus expenses, and each
  of the four deltas is one call of \<open>calculatePercentageChange\<close>.
\<close>

definition percentageDeltas :: "rat \<Rightarrow> rat \<Rightarrow> rat \<Rightarrow> rat \<Rightarrow> rat \<Rightarrow> rat \<Rightarrow> deltas" where
  "percentageDeltas previousSales previousExpenses previousTransactions
                    currentSales currentExpenses currentTransactions =
     (let previousProfit = previousSales - previousExpenses;
          currentProfit = currentSales - currentExpenses
      in \<lparr> salesDelta = calculatePercentageChange previousSales currentSales,
           expensesDelta = calculatePercentageChange previousExpenses currentExpenses,
           profitDelta = calculatePercentageChange previousProfit currentProfit,
           transactionsDelta =
             calculatePercentageChange previousTransactions currentTransactions \<rparr>)"

definition zeroDeltas :: deltas where
  "zeroDeltas = \<lparr> salesDelta = 0, expensesDelta = 0, profitDelta = 0, transactionsDelta = 0 \<rparr>"

section \<open>Dates\<close>

text \<open>
  A \<open>Date\<close> holds a time value: milliseconds since the epoch, in UTC. The calendar
  follows the language standard: \<open>Day\<close>, \<open>TimeWithinDay\<close>, \<open>DayFromYear\<close>, \<open>MakeDay\<close>
  (which carries a month index outside 0..11 into the year, and a day number outside the
  month into the neighbouring months) and \<open>MakeTime\<close>.
\<close>

type_synonym instant = int

abbreviation msPerDay :: int where "msPerDay \<equiv> 86400000"

definition Day :: "int \<Rightarrow> int" where
  "Day t = t div msPerDay"

definition TimeWithinDay :: "int \<Rightarrow> int" where
  "TimeWithinDay t = t mod msPerDay"

definition DayFromYear :: "int \<Rightarrow> int" where
  "DayFromYear y =
     365 * (y - 1970) + (y - 1969) div 4 - (y - 1901) div 100 + (y - 1601) div 400"

definition InLeapYear :: "int \<Rightarrow> bool" where
  "InLeapYear y = (y mod 4 = 0 \<and> (y mod 400 = 0 \<or> y mod 100 \<noteq> 0))"

definition monthOffset :: "int \<Rightarrow> bool \<Rightarrow> int" where
  "monthOffset m leap =
     (if m = 0 then 0 else if m = 1 then 31
      else [59, 90, 120, 151, 181, 212, 243, 273, 304, 334] ! nat (m - 2)
           + (if leap then 1 else 0))"

definition MakeDay :: "int \<Rightarrow> int \<Rightarrow> int \<Rightarrow> int" where
  "MakeDay year month date =
     (let ym = year + month div 12; mn = month mod 12
      in DayFromYear ym + monthOffset mn (InLeapYear ym) + date - 1)"

definition MakeTime :: "int \<Rightarrow> int \<Rightarrow> int \<Rightarrow> int \<Rightarrow> int" where
  "MakeTime hour minute sec ms = hour * 3600000 + minute * 60000 + sec * 1000 + ms"

text \<open>
  \<open>YearFromDay day\<close> is the year \<open>y\<close> with \<open>DayFromYear y \<le> day < DayFromYear (y + 1)\<close>:
  the mean length of a year gives an estimate that is off by at most one.
  \<open>MonthFromDay\<close> reads the month index off the day within the year, and \<open>DateFromDay\<close>
  is the day of the month.
\<close>

definition YearFromDay :: "int \<Rightarrow> int" where
  "YearFromDay day =
     (let estimate = 1970 + (400 * day) div 146097
      in if DayFromYear estimate > day then estimate - 1
         else if DayFromYear (estimate + 1) \<le> day then estimate + 1
         else estimate)"

definition MonthFromDay :: "int \<Rightarrow> int" where
  "MonthFromDay day =
     (let y = YearFromDay day;
          dayWithinYear = day - DayFromYear y;
          leap = (if InLeapYear y then 1 else 0)
      in if dayWithinYear < 31 then 0
         else if dayWithinYear < 59 + leap then 1
         else if dayWithinYear < 90 + leap then 2
         else if dayWithinYear < 120 + leap then 3
         else if dayWithinYear < 151 + leap then 4
         else if dayWithinYear < 181 + leap then 5
         else if dayWithinYear < 212 + leap then 6
         else if dayWithinYear < 243 + leap then 7
         else if dayWithinYear < 273 + leap then 8
         else if dayWithinYear < 304 + leap then 9
         else if dayWithinYear < 334 + leap then 10
         else 11)"

definition DateFromDay :: "int \<Rightarrow> int" where
  "DateFromDay day = day - MakeDay (YearFromDay day) (MonthFromDay day) 1 + 1"

text \<open>
  A time zone is a fixed offset from UTC in milliseconds (local time is UTC plus the
  offset); daylight-saving changes are not modelled. The process has its own zone,
  \<open>localOffset\<close>: it is the zone of \<open>new Date(y, m, d, ...)\<close>, \<open>getFullYear\<close>,
  \<open>getMonth\<close>, \<open>getDate\<close> and \<open>setDate\<close>. The store's zone is the \<open>timezone\<close> argument
  of the source. The clock is read once per request (\<open>now\<close>). The conversions of the
  runtime from strings, \<open>Number(s)\<close> and \<open>new Date(s)\<close>, are parameters.
\<close>

type_synonym timezone = int

datatype jsnum = NaN | Num rat | Infinity bool

record env =
  now :: instant
  localOffset :: int
  toNumber :: "string \<Rightarrow> jsnum"
  parseDate :: "string \<Rightarrow> instant option"

text \<open>
  The value of \<open>Number(s)\<close> on a string of decimal digits, and on the empty string; the
  examples below run with it.
\<close>

definition decimalNumber :: "string \<Rightarrow> jsnum" where
  "decimalNumber s =
     (if list_all (\<lambda>c. 48 \<le> (of_char c :: nat) \<and> (of_char c :: nat) \<le> 57) s
      then Num (of_nat (foldl (\<lambda>n c. 10 * n + ((of_char c :: nat) - 48)) 0 s))
      else NaN)"

definition yearOf :: "int \<Rightarrow> instant \<Rightarrow> int" where
  "yearOf offset t = YearFromDay (Day (t + offset))"

definition monthOf :: "int \<Rightarrow> instant \<Rightarrow> int" where
  "monthOf offset t = MonthFromDay (Day (t + offset))"

definition dateOf :: "int \<Rightarrow> instant \<Rightarrow> int" where
  "dateOf offset t = DateFromDay (Day (t + offset))"

definition hoursOf :: "int \<Rightarrow> instant \<Rightarrow> int" where
  "hoursOf offset t = TimeWithinDay (t + offset) div 3600000"

definition getFullYear :: "env \<Rightarrow> instant \<Rightarrow> int" where
  "getFullYear e t = yearOf (localOffset e) t"

definition getMonth :: "env \<Rightarrow> instant \<Rightarrow> int" where
  "getMonth e t = monthOf (localOffset e) t"

definition getDate :: "env \<Rightarrow> instant \<Rightarrow> int" where
  "getDate e t = dateOf (localOffset e) t"

text \<open>\<open>new Date(year, monthIndex, day, hours, minutes, seconds, ms)\<close>, in the process zone.\<close>

definition newDate :: "env \<Rightarrow> int \<Rightarrow> int \<Rightarrow> int \<Rightarrow> int \<Rightarrow> int \<Rightarrow> int \<Rightarrow> int \<Rightarrow> instant" where
  "newDate e year monthIndex day hours minutes seconds ms =
     (let yr = (if 0 \<le> year \<and> year \<le> 99 then 1900 + year else year)
      in MakeDay yr monthIndex day * msPerDay + MakeTime hours minutes seconds ms
         - localOffset e)"

text \<open>
  \<open>d.setDate(date)\<close> and \<open>d.setMonth(month)\<close>: the named field of the local date is
  replaced, the other fields and the local time of day stay.
\<close>

definition setDate :: "env \<Rightarrow> instant \<Rightarrow> int \<Rightarrow> instant" where
  "setDate e t date =
     MakeDay (getFullYear e t) (getMonth e t) date * msPerDay
       + TimeWithinDay (t + localOffset e) - localOffset e"

definition setMonth :: "env \<Rightarrow> instant \<Rightarrow> int \<Rightarrow> instant" where
  "setMonth e t month =
     MakeDay (getFullYear e t) month (getDate e t) * msPerDay
       + TimeWithinDay (t + localOffset e) - localOffset e"

subsection \<open>Formatting\<close>

definition digit :: "int \<Rightarrow> char" where
  "digit n = ''0123456789'' ! nat n"

definition pad2 :: "int \<Rightarrow> string" where
  "pad2 n = [digit (n div 10 mod 10), digit (n mod 10)]"

definition pad4 :: "int \<Rightarrow> string" where
  "pad4 n = [digit (n div 1000 mod 10), digit (n div 100 mod 10),
             digit (n div 10 mod 10), digit (n mod 10)]"

text \<open>
  The formats \<open>%Y-%m-%d\<close>, \<open>%Y-%m\<close> and \<open>%Y-%m-%d %H:00\<close> of an instant in a zone, for
  the years 0 to 9999.
\<close>

definition dayString :: "timezone \<Rightarrow> instant \<Rightarrow> string" where
  "dayString tz t =
     pad4 (yearOf tz t) @ ''-'' @ pad2 (monthOf tz t + 1) @ ''-'' @ pad2 (dateOf tz t)"

definition monthString :: "timezone \<Rightarrow> instant \<Rightarrow> string" where
  "monthString tz t = pad4 (yearOf tz t) @ ''-'' @ pad2 (monthOf tz t + 1)"

definition hourString :: "timezone \<Rightarrow> instant \<Rightarrow> string" where
  "hourString tz t = dayString tz t @ '' '' @ pad2 (hoursOf tz t) @ '':00''"

text \<open>\<open>d.toISOString().split('T')[0]\<close>: the UTC date, with the expanded year outside 0..9999.\<close>

definition isoDate :: "instant \<Rightarrow> string" where
  "isoDate t =
     (let y = yearOf 0 t;
          yearPart = (if 0 \<le> y \<and> y \<le> 9999 then pad4 y
                      else (if y < 0 then ''-'' else ''+'') @ pad2 (\<bar>y\<bar> div 10000) @ pad4 \<bar>y\<bar>)
      in yearPart @ ''-'' @ pad2 (monthOf 0 t + 1) @ ''-'' @ pad2 (dateOf 0 t))"

text \<open>\<open>s.split(sep)\<close> for a separator of one character.\<close>

fun split :: "char \<Rightarrow> string \<Rightarrow> string list" where
  "split sep [] = [[]]"
| "split sep (c # cs) =
     (if c = sep then [] # split sep cs
      else (case split sep cs of [] \<Rightarrow> [[c]] | p # ps \<Rightarrow> (c # p) # ps))"

section \<open>Errors and the backing store's failures\<close>

text \<open>
  Every access of the services to the backing store can fail. The accesses are named by
  the service function that makes them (the inline aggregations of \<open>getDashboardMetrics\<close>
  by what they compute).
\<close>

datatype db_call =
  ExpenseStatsQuery | ExpenseSeriesQuery | ExpensesByDateRangeQuery
  | ProductStatsQuery | TransactionStatsQuery | RecentTransactionsQuery | TopProductsQuery
  | GrowthRateQuery | PreviousPeriodQuery | VsYesterdayQuery
  | SalesAnalyticsByDateRangeQuery | SalesByPeriodQuery | SalesByMonthQuery
  | PaymentMethodsQuery | OrderSourcesQuery

datatype error =
  InvalidDateComponents | InvalidMonth | InvalidYear | InvalidTimeValue | QueryFailed db_call

section \<open>utils/timezone.ts\<close>

record DateRange =
  rangeStart :: instant
  rangeEnd :: instant

definition DEFAULT_TIMEZONE :: timezone where
  "DEFAULT_TIMEZONE = 3 * 3600000"

definition getStoreTimezone :: "string option \<Rightarrow> timezone" where
  "getStoreTimezone storeId = DEFAULT_TIMEZONE"

subsection \<open>parseDateRange\<close>

definition isNaN :: "jsnum \<Rightarrow> bool" where
  "isNaN x = (case x of NaN \<Rightarrow> True | _ \<Rightarrow> False)"

definition numLess :: "jsnum \<Rightarrow> rat \<Rightarrow> bool" where
  "numLess x r = (case x of NaN \<Rightarrow> False | Num a \<Rightarrow> a < r | Infinity positive \<Rightarrow> \<not> positive)"

definition numGreater :: "jsnum \<Rightarrow> rat \<Rightarrow> bool" where
  "numGreater x r = (case x of NaN \<Rightarrow> False | Num a \<Rightarrow> a > r | Infinity positive \<Rightarrow> positive)"

text \<open>The integer a finite number argument of \<open>new Date(...)\<close> is truncated to.\<close>

definition toInteger :: "jsnum \<Rightarrow> int" where
  "toInteger x = (case x of Num a \<Rightarrow> (if a \<ge> 0 then \<lfloor>a\<rfloor> else \<lceil>a\<rceil>) | _ \<Rightarrow> 0)"

definition minusOne :: "jsnum \<Rightarrow> jsnum" where
  "minusOne x = (case x of Num a \<Rightarrow> Num (a - 1) | _ \<Rightarrow> x)"

text \<open>A destructured array element: \<open>undefined\<close> past the end, which \<open>isNaN\<close> takes for NaN.\<close>

definition element :: "jsnum list \<Rightarrow> nat \<Rightarrow> jsnum" where
  "element xs i = (if i < length xs then xs ! i else NaN)"

datatype boundary = StartBoundary | EndBoundary

definition sliceDate :: "string \<Rightarrow> string" where
  "sliceDate dateStr = (if length dateStr > 10 then take 10 dateStr else dateStr)"

text \<open>
  \<open>const [year, month, day] = safeDateStr.split('-').map(Number)\<close>, and the validation of
  the three components.
\<close>

definition dateParts :: "env \<Rightarrow> string \<Rightarrow> jsnum \<times> jsnum \<times> jsnum" where
  "dateParts e dateStr =
     (let safeDateStr = sliceDate dateStr;
          parts = map (toNumber e) (split CHR ''-'' safeDateStr)
      in (element parts 0, element parts 1, element parts 2))"

definition invalidDate :: "jsnum \<times> jsnum \<times> jsnum \<Rightarrow> bool" where
  "invalidDate c =
     (case c of (year, month, day) \<Rightarrow>
        isNaN year \<or> isNaN month \<or> isNaN day \<or>
        numLess year 1900 \<or> numGreater year 2100 \<or>
        numLess month 1 \<or> numGreater month 12 \<or>
        numLess day 1 \<or> numGreater day 31)"

text \<open>
  The components pass the validation only when all three are finite, so the date that is
  built is a valid one and the second check of the source
  (\<open>isNaN(date.getTime())\<close>) never fires. The error is logged and thrown again. The
  \<open>timezone\<close> argument reaches the log only.
\<close>

definition parseDateInTimezone :: "env \<Rightarrow> string \<Rightarrow> timezone \<Rightarrow> boundary \<Rightarrow> error + instant" where
  "parseDateInTimezone e dateStr tz boundary =
     (case dateParts e dateStr of (year, month, day) \<Rightarrow>
        if invalidDate (year, month, day) then Inl InvalidDateComponents
        else (case boundary of
                StartBoundary \<Rightarrow>
                  Inr (newDate e (toInteger year) (toInteger (minusOne month)) (toInteger day)
                         0 0 0 0)
              | EndBoundary \<Rightarrow>
                  Inr (newDate e (toInteger year) (toInteger (minusOne month)) (toInteger day)
                         23 59 59 999)))"

definition parseDateRange ::
  "env \<Rightarrow> string option \<Rightarrow> string option \<Rightarrow> timezone \<Rightarrow> DateRange option" where
  "parseDateRange e startDateStr endDateStr tz =
     (if truthy startDateStr \<and> truthy endDateStr
      then (let normalizedStart = sliceDate (the startDateStr);
                normalizedEnd = sliceDate (the endDateStr)
            in case parseDateInTimezone e normalizedStart tz StartBoundary of
                 Inl err \<Rightarrow> None
               | Inr startDate \<Rightarrow>
                   (case parseDateInTimezone e normalizedEnd tz EndBoundary of
                      Inl err \<Rightarrow> None
                    | Inr endDate \<Rightarrow> Some \<lparr> rangeStart = startDate, rangeEnd = endDate \<rparr>))
      else None)"

subsection \<open>Named ranges\<close>

definition getTodayRange :: "env \<Rightarrow> timezone \<Rightarrow> DateRange" where
  "getTodayRange e tz =
     (let today = newDate e (getFullYear e (now e)) (getMonth e (now e)) (getDate e (now e))
                    0 0 0 0
      in \<lparr> rangeStart = newDate e (getFullYear e today) (getMonth e today) (getDate e today)
                          0 0 0 0,
           rangeEnd = newDate e (getFullYear e today) (getMonth e today) (getDate e today)
                        23 59 59 999 \<rparr>)"

text \<open>
  The window the specification describes for today: from the midnight of the current
  day in the zone of the store to one millisecond before the next.
\<close>

definition todayRangeSpec :: "instant \<Rightarrow> timezone \<Rightarrow> DateRange" where
  "todayRangeSpec t tz =
     (let localMidnight = Day (t + tz) * msPerDay - tz
      in \<lparr> rangeStart = localMidnight, rangeEnd = localMidnight + msPerDay - 1 \<rparr>)"

definition getThisMonthRange :: "env \<Rightarrow> timezone \<Rightarrow> DateRange" where
  "getThisMonthRange e tz =
     \<lparr> rangeStart = newDate e (getFullYear e (now e)) (getMonth e (now e)) 1 0 0 0 0,
       rangeEnd = newDate e (getFullYear e (now e)) (getMonth e (now e) + 1) 0 23 59 59 999 \<rparr>"

definition getMonthYearRange :: "env \<Rightarrow> int \<Rightarrow> int \<Rightarrow> timezone \<Rightarrow> error + DateRange" where
  "getMonthYearRange e month year tz =
     (let monthIndex = month - 1
      in if month < 1 \<or> month > 12 then Inl InvalidMonth
         else if year < 1900 \<or> year > 2100 then Inl InvalidYear
         else Inr \<lparr> rangeStart = newDate e year monthIndex 1 0 0 0 0,
                    rangeEnd = newDate e year (monthIndex + 1) 0 23 59 59 999 \<rparr>)"

definition getLastNDaysRange :: "env \<Rightarrow> int \<Rightarrow> timezone \<Rightarrow> DateRange" where
  "getLastNDaysRange e days tz =
     (let end = now e;
          start = setDate e (now e) (getDate e (now e) - days)
      in \<lparr> rangeStart = newDate e (getFullYear e start) (getMonth e start) (getDate e start)
                          0 0 0 0,
           rangeEnd = newDate e (getFullYear e end) (getMonth e end) (getDate e end)
                        23 59 59 999 \<rparr>)"

definition formatDateForTimezone :: "instant \<Rightarrow> timezone \<Rightarrow> string" where
  "formatDateForTimezone date tz = dayString tz date"

section \<open>The backing store\<close>

text \<open>
  The collections hold the fields the analytics read. \<open>total_amount\<close>,
  \<open>payment_method\<close> and \<open>order_source\<close> may be missing or null on a stored transaction.
  \<open>fails\<close> tells which accesses fail during the request.
\<close>

record TransactionItem =
  product_id :: string
  product_name :: string
  quantity :: rat
  unit_price :: rat

record Transaction =
  txn_id :: string
  store_id :: string
  items :: "TransactionItem list"
  total_amount :: "rat option"
  payment_method :: "string option"
  txn_status :: string
  order_source :: "string option"
  created_at :: instant

record Expense =
  expense_store_id :: string
  expense_date :: instant
  expense_amount :: rat

record Product =
  product_store_id :: string
  stock_quantity :: rat
  min_stock_level :: rat

record database =
  transactions :: "Transaction list"
  expenses :: "Expense list"
  products :: "Product list"
  fails :: "db_call \<Rightarrow> bool"

text \<open>Keys of a \<open>$group\<close> stage followed by an ascending \<open>$sort\<close> on the key.\<close>

definition sortedKeys :: "('a \<Rightarrow> string) \<Rightarrow> 'a list \<Rightarrow> string list" where
  "sortedKeys key xs = sort (remdups (map key xs))"

section \<open>ExpenseService\<close>

definition matchesExpense ::
  "string option \<Rightarrow> instant option \<Rightarrow> instant option \<Rightarrow> Expense \<Rightarrow> bool" where
  "matchesExpense storeId startDate endDate x =
     ((if truthy storeId then storeId = Some (expense_store_id x) else True)
      \<and> (case startDate of None \<Rightarrow> True | Some s \<Rightarrow> s \<le> expense_date x)
      \<and> (case endDate of None \<Rightarrow> True | Some t \<Rightarrow> expense_date x \<le> t))"

record ExpensePoint =
  period :: string
  amount :: rat
  count :: nat

definition expenseGroups :: "(Expense \<Rightarrow> string) \<Rightarrow> Expense list \<Rightarrow> ExpensePoint list" where
  "expenseGroups key xs =
     map (\<lambda>k. \<lparr> period = k,
                 amount = sum_list (map expense_amount (filter (\<lambda>x. key x = k) xs)),
                 count = length (filter (\<lambda>x. key x = k) xs) \<rparr>)
         (sortedKeys key xs)"

text \<open>The object \<open>map\<close> filled from the grouped rows, keyed by period.\<close>

definition expenseMap :: "ExpensePoint list \<Rightarrow> (string \<rightharpoonup> rat \<times> nat)" where
  "expenseMap series = foldl (\<lambda>m s. m(period s \<mapsto> (amount s, count s))) Map.empty series"

subsection \<open>Calendar facts the loops rest on\<close>

lemma MakeDay_date: "MakeDay y m d = MakeDay y m 1 + d - 1"
  by (simp add: MakeDay_def Let_def)

lemma Day_TimeWithinDay: "Day t * msPerDay + TimeWithinDay t = t"
  by (simp add: Day_def TimeWithinDay_def)

lemma setDate_getDate: "setDate e t (getDate e t + n) = t + n * msPerDay"
proof -
  define day where "day = Day (t + localOffset e)"
  have "MakeDay (getFullYear e t) (getMonth e t) (getDate e t + n) = day + n"
    unfolding getFullYear_def getMonth_def getDate_def yearOf_def monthOf_def dateOf_def
      DateFromDay_def day_def [symmetric]
    by (subst MakeDay_date) simp
  then have "setDate e t (getDate e t + n)
               = (day + n) * msPerDay + TimeWithinDay (t + localOffset e) - localOffset e"
    by (simp add: setDate_def)
  also have "\<dots> = t + n * msPerDay"
    using Day_TimeWithinDay [of "t + localOffset e"] by (simp add: day_def algebra_simps)
  finally show ?thesis .
qed

lemma div_Suc_int:
  fixes a n :: int
  assumes "0 < n"
  shows "(a + 1) div n = a div n + (if (a + 1) mod n = 0 then 1 else 0)"
proof (cases "a mod n + 1 < n")
  case True
  have eq: "a + 1 = n * (a div n) + (a mod n + 1)" by simp
  have nonneg: "0 \<le> a mod n + 1" using assms by (simp add: add_nonneg_nonneg)
  have "(a + 1) div n = a div n"
    using eq nonneg True by (rule int_div_pos_eq)
  moreover have "(a + 1) mod n = a mod n + 1"
    using eq nonneg True by (rule int_mod_pos_eq)
  moreover have "0 \<le> a mod n" using assms by simp
  then have "a mod n + 1 \<noteq> 0" by linarith
  ultimately show ?thesis by simp
next
  case False
  moreover have "a mod n < n" using assms by simp
  ultimately have full: "a mod n + 1 = n" by linarith
  have eq: "a + 1 = n * (a div n + 1) + 0"
    using full by (metis add.right_neutral distrib_left mult.right_neutral mult_div_mod_eq add.assoc)
  have "(a + 1) div n = a div n + 1"
    using eq _ assms by (rule int_div_pos_eq) simp
  moreover have "(a + 1) mod n = 0"
    using eq _ assms by (rule int_mod_pos_eq) simp
  ultimately show ?thesis by simp
qed

lemma mod_shift:
  "((y::int) - 1968) mod 4 = 0 \<longleftrightarrow> y mod 4 = 0"
  "((y::int) - 1900) mod 100 = 0 \<longleftrightarrow> y mod 100 = 0"
  "((y::int) - 1600) mod 400 = 0 \<longleftrightarrow> y mod 400 = 0"
proof -
  have "(y - 1968) mod 4 = (y + 4 * (- 492)) mod 4" by simp
  also have "\<dots> = y mod 4" by (simp only: mod_mult_self2)
  finally show "(y - 1968) mod 4 = 0 \<longleftrightarrow> y mod 4 = 0" by simp
  have "(y - 1900) mod 100 = (y + 100 * (- 19)) mod 100" by simp
  also have "\<dots> = y mod 100" by (simp only: mod_mult_self2)
  finally show "(y - 1900) mod 100 = 0 \<longleftrightarrow> y mod 100 = 0" by simp
  have "(y - 1600) mod 400 = (y + 400 * (- 4)) mod 400" by simp
  also have "\<dots> = y mod 400" by (simp only: mod_mult_self2)
  finally show "(y - 1600) mod 400 = 0 \<longleftrightarrow> y mod 400 = 0" by simp
qed

lemma leap_mods:
  fixes y :: int
  shows "y mod 100 = 0 \<Longrightarrow> y mod 4 = 0" and "y mod 400 = 0 \<Longrightarrow> y mod 100 = 0"
proof -
  have "y mod 100 mod 4 = y mod 4" by (rule mod_mod_cancel) simp
  then show "y mod 100 = 0 \<Longrightarrow> y mod 4 = 0" by simp
  have "y mod 400 mod 100 = y mod 100" by (rule mod_mod_cancel) simp
  then show "y mod 400 = 0 \<Longrightarrow> y mod 100 = 0" by simp
qed

lemma DayFromYear_Suc:
  "DayFromYear (y + 1) = DayFromYear y + 365 + (if InLeapYear y then 1 else 0)"
proof -
  define a where "a = (y - 1969) div 4"
  define b where "b = (y - 1901) div 100"
  define c where "c = (y - 1601) div 400"
  have d4: "(y + 1 - 1969) div 4 = a + (if y mod 4 = 0 then 1 else 0)"
    using div_Suc_int [of 4 "y - 1969"] mod_shift(1) [of y] by (simp add: algebra_simps a_def)
  have d100: "(y + 1 - 1901) div 100 = b + (if y mod 100 = 0 then 1 else 0)"
    using div_Suc_int [of 100 "y - 1901"] mod_shift(2) [of y] by (simp add: algebra_simps b_def)
  have d400: "(y + 1 - 1601) div 400 = c + (if y mod 400 = 0 then 1 else 0)"
    using div_Suc_int [of 400 "y - 1601"] mod_shift(3) [of y] by (simp add: algebra_simps c_def)
  have "DayFromYear (y + 1) = 365 * (y + 1 - 1970) + (a + (if y mod 4 = 0 then 1 else 0))
          - (b + (if y mod 100 = 0 then 1 else 0)) + (c + (if y mod 400 = 0 then 1 else 0))"
    unfolding DayFromYear_def d4 d100 d400 ..
  moreover have "DayFromYear y = 365 * (y - 1970) + a - b + c"
    unfolding DayFromYear_def a_def b_def c_def ..
  ultimately show ?thesis
    using leap_mods [of y] unfolding InLeapYear_def
    by (cases "y mod 4 = 0"; cases "y mod 100 = 0"; cases "y mod 400 = 0") simp_all
qed

lemma MonthFromDay_range: "0 \<le> MonthFromDay d \<and> MonthFromDay d \<le> 11"
  by (simp add: MonthFromDay_def Let_def)

lemma MakeDay_next_month:
  assumes "0 \<le> m" "m \<le> 11"
  shows "MakeDay y m d + 28 \<le> MakeDay y (m + 1) d"
proof (cases "m = 11")
  case True
  have "MakeDay y 12 d = DayFromYear (y + 1) + d - 1"
    by (simp add: MakeDay_def monthOffset_def)
  moreover have "MakeDay y 11 d = DayFromYear y + 334 + (if InLeapYear y then 1 else 0) + d - 1"
    by (simp add: MakeDay_def monthOffset_def)
  ultimately show ?thesis using True DayFromYear_Suc [of y] by simp
next
  case False
  then have "m = 0 \<or> m = 1 \<or> m = 2 \<or> m = 3 \<or> m = 4 \<or> m = 5 \<or> m = 6 \<or> m = 7
               \<or> m = 8 \<or> m = 9 \<or> m = 10"
    using assms by arith
  then show ?thesis
    by (elim disjE) (simp_all add: MakeDay_def monthOffset_def)
qed

lemma setMonth_next: "t + 28 * msPerDay \<le> setMonth e t (getMonth e t + 1)"
proof -
  define day where "day = Day (t + localOffset e)"
  define y where "y = YearFromDay day"
  define m where "m = MonthFromDay day"
  have range: "0 \<le> m" "m \<le> 11" using MonthFromDay_range [of day] by (simp_all add: m_def)
  have same: "MakeDay y m (DateFromDay day) = day"
    unfolding DateFromDay_def y_def m_def by (subst MakeDay_date) simp
  have "day + 28 \<le> MakeDay y (m + 1) (DateFromDay day)"
    using MakeDay_next_month [OF range, of y "DateFromDay day"] same by simp
  then have "day * msPerDay + 28 * msPerDay
                \<le> MakeDay y (m + 1) (DateFromDay day) * msPerDay"
    by simp
  moreover have "setMonth e t (getMonth e t + 1)
      = MakeDay y (m + 1) (DateFromDay day) * msPerDay + TimeWithinDay (t + localOffset e) - localOffset e"
    by (simp add: setMonth_def getFullYear_def getMonth_def getDate_def yearOf_def monthOf_def
          dateOf_def day_def y_def m_def)
  moreover have "day * msPerDay + TimeWithinDay (t + localOffset e) = t + localOffset e"
    using Day_TimeWithinDay [of "t + localOffset e"] by (simp add: day_def)
  ultimately show ?thesis by linarith
qed

subsection \<open>getExpenseSeries\<close>

text \<open>The loop that walks a cursor from the first local day to the last, one day a step.\<close>

function fillExpenseDays ::
  "env \<Rightarrow> timezone \<Rightarrow> (string \<rightharpoonup> rat \<times> nat) \<Rightarrow> instant \<Rightarrow> instant \<Rightarrow> ExpensePoint list" where
  "fillExpenseDays e tz m cursor end =
     (if cursor \<le> end
      then (let key = formatDateForTimezone cursor tz;
                v = (case m key of None \<Rightarrow> (0, 0) | Some found \<Rightarrow> found)
            in \<lparr> period = key, amount = fst v, count = snd v \<rparr>)
           # fillExpenseDays e tz m (setDate e cursor (getDate e cursor + 1)) end
      else [])"
  by pat_completeness auto
termination
  by (relation "measure (\<lambda>(e, tz, m, cursor, end). nat (end - cursor + 1))")
     (auto simp: setDate_getDate)

declare fillExpenseDays.simps [simp del]

text \<open>
  \<open>daysDiff\<close> is \<open>Math.ceil\<close> of the length of the window in days. A failure of the
  aggregation is caught and gives the empty series.
\<close>

definition getExpenseSeries ::
  "database \<Rightarrow> env \<Rightarrow> instant \<Rightarrow> instant \<Rightarrow> string option \<Rightarrow> ExpensePoint list" where
  "getExpenseSeries db e startDate endDate storeId =
     (if fails db ExpenseSeriesQuery then []
      else (let matched = filter (matchesExpense storeId (Some startDate) (Some endDate))
                            (expenses db);
                daysDiff = - ((startDate - endDate) div msPerDay);
                isDaily = (daysDiff \<le> 31)
            in if isDaily
               then (let timezone = getStoreTimezone storeId;
                         series = expenseGroups (\<lambda>x. dayString timezone (expense_date x)) matched;
                         startLocal = newDate e (getFullYear e startDate) (getMonth e startDate)
                                        (getDate e startDate) 0 0 0 0;
                         endLocal = newDate e (getFullYear e endDate) (getMonth e endDate)
                                      (getDate e endDate) 0 0 0 0
                     in fillExpenseDays e timezone (expenseMap series) startLocal endLocal)
               else (let timezone = getStoreTimezone storeId;
                         series = expenseGroups (\<lambda>x. monthString timezone (expense_date x)) matched
                     in series)))"

subsection \<open>getExpenseStats and getExpensesByDateRange\<close>

text \<open>
  Of the statistics, the count and the total amount are kept (the dashboard reads the
  total amount only). Both functions log a failure and throw it again.
\<close>

record ExpenseStats =
  expenseCount :: nat
  totalAmount :: rat

definition getExpenseStats ::
  "database \<Rightarrow> string option \<Rightarrow> instant option \<Rightarrow> instant option \<Rightarrow> error + ExpenseStats" where
  "getExpenseStats db storeId startDate endDate =
     (if fails db ExpenseStatsQuery then Inl (QueryFailed ExpenseStatsQuery)
      else (let matched = filter (matchesExpense storeId startDate endDate) (expenses db)
            in Inr \<lparr> expenseCount = length matched,
                     totalAmount = sum_list (map expense_amount matched) \<rparr>))"

definition getExpensesByDateRange ::
  "database \<Rightarrow> instant \<Rightarrow> instant \<Rightarrow> string option \<Rightarrow> error + Expense list" where
  "getExpensesByDateRange db startDate endDate storeId =
     (if fails db ExpensesByDateRangeQuery then Inl (QueryFailed ExpensesByDateRangeQuery)
      else Inr (rev (sort_key expense_date
                  (filter (matchesExpense storeId (Some startDate) (Some endDate))
                     (expenses db)))))"

section \<open>AnalyticsService\<close>

subsection \<open>Filters\<close>

text \<open>
  A date of the filter object is a \<open>Date\<close> (possibly an invalid one) or a string.
  \<open>month\<close> and \<open>year\<close> are numbers; 0 is falsy.
\<close>

datatype dateInput = DateValue instant | InvalidDateValue | DateString string

record DashboardFilters =
  dateRange :: "string option"
  paymentMethod :: "string option"
  orderSource :: "string option"
  status :: "string option"
  startDate :: "dateInput option"
  endDate :: "dateInput option"
  month :: "int option"
  year :: "int option"

definition numberTruthy :: "int option \<Rightarrow> bool" where
  "numberTruthy x = (case x of None \<Rightarrow> False | Some n \<Rightarrow> n \<noteq> 0)"

definition dateTruthy :: "dateInput option \<Rightarrow> bool" where
  "dateTruthy x = (case x of None \<Rightarrow> False | Some (DateString s) \<Rightarrow> s \<noteq> [] | Some d \<Rightarrow> True)"

text \<open>\<open>filters?.field\<close>: undefined when there is no filter object.\<close>

definition optField :: "(DashboardFilters \<Rightarrow> 'a option) \<Rightarrow> DashboardFilters option \<Rightarrow> 'a option" where
  "optField f filters = (case filters of None \<Rightarrow> None | Some x \<Rightarrow> f x)"

text \<open>
  A \<open>$match\<close> on transactions. \<open>match_store_id = Some s\<close> is the condition
  \<open>store_id: s\<close>; with \<open>s\<close> undefined it matches no transaction, since every stored
  transaction has a store.
\<close>

datatype status_match = StatusIs string | StatusIn "string list"

record txn_filter =
  match_store_id :: "string option option"
  match_status :: status_match
  match_payment_method :: "string option"
  match_order_source :: "string option"
  match_created_at :: "(instant \<times> instant) option"

definition matchesTransaction :: "txn_filter \<Rightarrow> Transaction \<Rightarrow> bool" where
  "matchesTransaction f t =
     ((case match_store_id f of None \<Rightarrow> True | Some s \<Rightarrow> s = Some (store_id t))
      \<and> (case match_status f of
            StatusIs s \<Rightarrow> txn_status t = s
          | StatusIn ss \<Rightarrow> txn_status t \<in> set ss)
      \<and> (case match_payment_method f of None \<Rightarrow> True | Some p \<Rightarrow> payment_method t = Some p)
      \<and> (case match_order_source f of None \<Rightarrow> True | Some s \<Rightarrow> order_source t = Some s)
      \<and> (case match_created_at f of
            None \<Rightarrow> True
          | Some (lo, hi) \<Rightarrow> lo \<le> created_at t \<and> created_at t \<le> hi))"

definition findTransactions :: "database \<Rightarrow> txn_filter \<Rightarrow> Transaction list" where
  "findTransactions db f = filter (matchesTransaction f) (transactions db)"

text \<open>\<open>storeId ? { store_id: storeId } : {}\<close>\<close>

definition storeMatch :: "string option \<Rightarrow> string option option" where
  "storeMatch storeId = (if truthy storeId then Some storeId else None)"

text \<open>
  The status condition every filtered aggregation builds:
  \<open>if (filters.status && filters.status !== 'all') status = filters.status
  else status = { $in: ['completed', 'pending'] }\<close>.
\<close>

definition statusMatch :: "string option \<Rightarrow> status_match" where
  "statusMatch st =
     (if truthy st \<and> st \<noteq> Some ''all'' then StatusIs (the st)
      else StatusIn [''completed'', ''pending''])"

text \<open>The payment-method and order-source conditions: set unless absent or \<open>all\<close>.\<close>

definition optionalMatch :: "string option \<Rightarrow> string option" where
  "optionalMatch x = (if truthy x \<and> x \<noteq> Some ''all'' then x else None)"

text \<open>\<open>$sum\<close> of \<open>total_amount\<close>, a missing or null amount counting 0.\<close>

definition sumAmounts :: "Transaction list \<Rightarrow> rat" where
  "sumAmounts ts = sum_list (map (\<lambda>t. case total_amount t of None \<Rightarrow> 0 | Some a \<Rightarrow> a) ts)"

subsection \<open>getDateFilter\<close>

text \<open>
  The string of a filter date: \<open>toISOString().split('T')[0]\<close> of a \<open>Date\<close>, which throws
  a RangeError on an invalid one, or the string itself.
\<close>

definition dateInputString :: "dateInput \<Rightarrow> error + string" where
  "dateInputString d =
     (case d of
        DateValue t \<Rightarrow> Inr (isoDate t)
      | InvalidDateValue \<Rightarrow> Inl InvalidTimeValue
      | DateString s \<Rightarrow> Inr s)"

definition namedRange :: "env \<Rightarrow> string \<Rightarrow> timezone \<Rightarrow> DateRange option" where
  "namedRange e token tz =
     (if token = ''today'' then Some (getTodayRange e tz)
      else if token = ''this_month'' then Some (getThisMonthRange e tz)
      else if token = ''7d'' then Some (getLastNDaysRange e 7 tz)
      else if token = ''30d'' then Some (getLastNDaysRange e 30 tz)
      else if token = ''90d'' then Some (getLastNDaysRange e 90 tz)
      else if token = ''1y'' then Some (getLastNDaysRange e 365 tz)
      else None)"

definition customRange :: "env \<Rightarrow> DashboardFilters \<Rightarrow> timezone \<Rightarrow> error + DateRange option" where
  "customRange e f tz =
     (case dateInputString (the (startDate f)) of
        Inl err \<Rightarrow> Inl err
      | Inr startDateStr \<Rightarrow>
          (case dateInputString (the (endDate f)) of
             Inl err \<Rightarrow> Inl err
           | Inr endDateStr \<Rightarrow> Inr (parseDateRange e (Some startDateStr) (Some endDateStr) tz)))"

text \<open>
  The month and year come first when no explicit dates are given (an invalid month or
  year is logged and the other options are tried), then the named range, then the
  explicit dates. The result is the pair \<open>$gte\<close>, \<open>$lte\<close>, or null.
\<close>

definition getDateFilter ::
  "env \<Rightarrow> DashboardFilters option \<Rightarrow> timezone \<Rightarrow> error + DateRange option" where
  "getDateFilter e filters tz =
     (case filters of
        None \<Rightarrow> Inr None
      | Some f \<Rightarrow>
          (let monthYearRange =
                 (if numberTruthy (month f) \<and> numberTruthy (year f)
                     \<and> \<not> dateTruthy (startDate f) \<and> \<not> dateTruthy (endDate f)
                  then (case getMonthYearRange e (the (month f)) (the (year f)) tz of
                          Inl err \<Rightarrow> None
                        | Inr r \<Rightarrow> Some r)
                  else None)
           in case monthYearRange of
                Some r \<Rightarrow> Inr (Some r)
              | None \<Rightarrow>
                  if truthy (dateRange f) then Inr (namedRange e (the (dateRange f)) tz)
                  else if dateTruthy (startDate f) \<and> dateTruthy (endDate f)
                  then customRange e f tz
                  else Inr None))"


subsection \<open>Errors passed on\<close>

definition andThen :: "error + 'a \<Rightarrow> ('a \<Rightarrow> error + 'b) \<Rightarrow> error + 'b" where
  "andThen r f = (case r of Inl err \<Rightarrow> Inl err | Inr x \<Rightarrow> f x)"

text \<open>An access to the backing store whose failure is not caught where it is made.\<close>

definition query :: "database \<Rightarrow> db_call \<Rightarrow> 'a \<Rightarrow> error + 'a" where
  "query db call result = (if fails db call then Inl (QueryFailed call) else Inr result)"

subsection \<open>Point totals of the dashboard\<close>

definition transactionFilter ::
  "string option \<Rightarrow> DashboardFilters option \<Rightarrow> instant \<Rightarrow> instant \<Rightarrow> txn_filter" where
  "transactionFilter storeId filters primaryStartDate primaryEndDate =
     \<lparr> match_store_id = storeMatch storeId,
       match_status = statusMatch (optField status filters),
       match_payment_method = optionalMatch (optField paymentMethod filters),
       match_order_source = None,
       match_created_at = Some (primaryStartDate, primaryEndDate) \<rparr>"

text \<open>One branch of the \<open>$facet\<close>: the sum of the amounts and the number of transactions.\<close>

definition stats :: "database \<Rightarrow> txn_filter \<Rightarrow> rat \<times> nat" where
  "stats db f = (sumAmounts (findTransactions db f), length (findTransactions db f))"

definition productStats :: "database \<Rightarrow> string option \<Rightarrow> nat \<times> nat" where
  "productStats db storeId =
     (let matched = filter (\<lambda>p. if truthy storeId then storeId = Some (product_store_id p)
                                else True) (products db)
      in (length matched,
          length (filter (\<lambda>p. stock_quantity p \<le> min_stock_level p) matched)))"

record RecentTransaction =
  recentId :: string
  recentTotalAmount :: "rat option"
  recentPaymentMethod :: "string option"
  recentCreatedAt :: instant

definition recentTransactionsOf :: "database \<Rightarrow> txn_filter \<Rightarrow> RecentTransaction list" where
  "recentTransactionsOf db f =
     map (\<lambda>t. \<lparr> recentId = txn_id t, recentTotalAmount = total_amount t,
                 recentPaymentMethod = payment_method t, recentCreatedAt = created_at t \<rparr>)
         (take 10 (rev (sort_key created_at (findTransactions db f))))"

subsection \<open>getTopProducts\<close>

record ProductSales =
  productId :: string
  productName :: string
  quantitySold :: rat
  revenue :: rat

definition topProductsFilter ::
  "env \<Rightarrow> string option \<Rightarrow> DashboardFilters option \<Rightarrow> error + txn_filter" where
  "topProductsFilter e storeId filters =
     (case filters of
        Some f \<Rightarrow>
          andThen (getDateFilter e filters (getStoreTimezone storeId))
            (\<lambda>dateFilter.
               Inr \<lparr> match_store_id = storeMatch storeId,
                     match_status = statusMatch (status f),
                     match_payment_method = optionalMatch (paymentMethod f),
                     match_order_source = optionalMatch (orderSource f),
                     match_created_at =
                       (case dateFilter of None \<Rightarrow> None
                        | Some r \<Rightarrow> Some (rangeStart r, rangeEnd r)) \<rparr>)
      | None \<Rightarrow>
          Inr \<lparr> match_store_id = storeMatch storeId,
                match_status = StatusIn [''completed'', ''pending''],
                match_payment_method = None,
                match_order_source = None,
                match_created_at = None \<rparr>)"

text \<open>
  \<open>$unwind\<close> of the items and \<open>$group\<close> by product: the groups stand in the order in
  which the products first occur, and the descending sort on the revenue keeps that
  order among equal revenues.
\<close>

definition productGroups :: "Transaction list \<Rightarrow> ProductSales list" where
  "productGroups ts =
     (let lines = concat (map items ts)
      in map (\<lambda>i. let own = filter (\<lambda>l. product_id l = i) lines
                  in \<lparr> productId = i,
                       productName = product_name (hd own),
                       quantitySold = sum_list (map quantity own),
                       revenue = sum_list (map (\<lambda>l. quantity l * unit_price l) own) \<rparr>)
             (remdups (map product_id lines)))"

definition getTopProducts ::
  "database \<Rightarrow> env \<Rightarrow> string option \<Rightarrow> nat \<Rightarrow> DashboardFilters option \<Rightarrow> ProductSales list" where
  "getTopProducts db e storeId limit filters =
     (case topProductsFilter e storeId filters of
        Inl err \<Rightarrow> []
      | Inr matchFilter \<Rightarrow>
          if fails db TopProductsQuery then []
          else take limit
                 (sort_key (\<lambda>p. - revenue p) (productGroups (findTransactions db matchFilter))))"

subsection \<open>Period comparisons\<close>

text \<open>
  \<open>filters.startDate instanceof Date ? filters.startDate : new Date(filters.startDate)\<close>;
  \<open>None\<close> is an invalid date. A comparison whose period has an invalid bound is taken
  to fail in its query.
\<close>

definition toDate :: "env \<Rightarrow> dateInput \<Rightarrow> instant option" where
  "toDate e d =
     (case d of DateValue t \<Rightarrow> Some t | InvalidDateValue \<Rightarrow> None | DateString s \<Rightarrow> parseDate e s)"

definition getDaysFromDateRange :: "string \<Rightarrow> int" where
  "getDaysFromDateRange token =
     (if token = ''7d'' then 7 else if token = ''30d'' then 30
      else if token = ''90d'' then 90 else if token = ''1y'' then 365 else 30)"

text \<open>
  The current and the previous period of \<open>calculateGrowthRate\<close>, which
  \<open>calculateVsPreviousPeriodMetrics\<close> repeats after its month and year case: explicit
  dates, then a named range, then the current month against the month before.
\<close>

definition comparisonPeriods ::
  "env \<Rightarrow> DashboardFilters option \<Rightarrow> timezone \<Rightarrow> error + (DateRange \<times> DateRange)" where
  "comparisonPeriods e filters tz =
     (if dateTruthy (optField startDate filters) \<and> dateTruthy (optField endDate filters)
      then (case toDate e (the (optField startDate filters)) of
              None \<Rightarrow> Inl InvalidTimeValue
            | Some currentPeriodStart \<Rightarrow>
                (case toDate e (the (optField endDate filters)) of
                   None \<Rightarrow> Inl InvalidTimeValue
                 | Some currentPeriodEnd \<Rightarrow>
                     (let periodDurationMs = currentPeriodEnd - currentPeriodStart;
                          previousPeriodEnd = currentPeriodStart - 1;
                          previousPeriodStart = previousPeriodEnd - periodDurationMs
                      in Inr (\<lparr> rangeStart = currentPeriodStart, rangeEnd = currentPeriodEnd \<rparr>,
                              \<lparr> rangeStart = previousPeriodStart,
                                rangeEnd = previousPeriodEnd \<rparr>))))
      else if truthy (optField dateRange filters)
      then (let days = getDaysFromDateRange (the (optField dateRange filters));
                currentRange = getLastNDaysRange e days tz;
                previousRange = getLastNDaysRange e (days * 2) tz
            in Inr (currentRange,
                    \<lparr> rangeStart = rangeStart previousRange,
                      rangeEnd = rangeStart currentRange - 1 \<rparr>))
      else (let monthRange = getThisMonthRange e tz;
                lastMonth = setMonth e (rangeStart monthRange)
                              (getMonth e (rangeStart monthRange) - 1);
                lastMonthEnd = rangeStart monthRange - 1
            in Inr (monthRange,
                    \<lparr> rangeStart = newDate e (getFullYear e lastMonth) (getMonth e lastMonth) 1
                                     0 0 0 0,
                      rangeEnd = lastMonthEnd \<rparr>)))"

text \<open>
  The periods of \<open>calculateVsPreviousPeriodMetrics\<close>. With a month and a year the
  current period is that month and the previous period the month before it, December
  of the year before for January; \<open>getMonthYearRange\<close> throws on a month or year out of
  its range.
\<close>

definition vsPreviousPeriods ::
  "env \<Rightarrow> DashboardFilters option \<Rightarrow> timezone \<Rightarrow> error + (DateRange \<times> DateRange)" where
  "vsPreviousPeriods e filters tz =
     (if numberTruthy (optField month filters) \<and> numberTruthy (optField year filters)
      then andThen
             (getMonthYearRange e (the (optField month filters)) (the (optField year filters)) tz)
             (\<lambda>currentMonthRange.
                let previousMonth = the (optField month filters) - 1;
                    previousYear = the (optField year filters);
                    previous = (if previousMonth < 1
                                then (12, the (optField year filters) - 1)
                                else (previousMonth, previousYear))
                in andThen (getMonthYearRange e (fst previous) (snd previous) tz)
                     (\<lambda>previousMonthRange. Inr (currentMonthRange, previousMonthRange)))
      else comparisonPeriods e filters tz)"

text \<open>The base filter of the growth rate and of the comparison with the previous period.\<close>

definition comparisonFilter :: "string option \<Rightarrow> DashboardFilters option \<Rightarrow> DateRange \<Rightarrow> txn_filter" where
  "comparisonFilter storeId filters r =
     (case filters of
        Some f \<Rightarrow>
          \<lparr> match_store_id = storeMatch storeId,
            match_status = statusMatch (status f),
            match_payment_method = optionalMatch (paymentMethod f),
            match_order_source = optionalMatch (orderSource f),
            match_created_at = Some (rangeStart r, rangeEnd r) \<rparr>
      | None \<Rightarrow>
          \<lparr> match_store_id = storeMatch storeId,
            match_status = StatusIn [''completed'', ''pending''],
            match_payment_method = None,
            match_order_source = None,
            match_created_at = Some (rangeStart r, rangeEnd r) \<rparr>)"

definition calculateGrowthRate ::
  "database \<Rightarrow> env \<Rightarrow> string option \<Rightarrow> DashboardFilters option \<Rightarrow> rat" where
  "calculateGrowthRate db e storeId filters =
     (case comparisonPeriods e filters (getStoreTimezone storeId) of
        Inl err \<Rightarrow> 0
      | Inr (currentPeriod, previousPeriod) \<Rightarrow>
          if fails db GrowthRateQuery then 0
          else (let currentTotal =
                      sumAmounts (findTransactions db (comparisonFilter storeId filters currentPeriod));
                    previousTotal =
                      sumAmounts (findTransactions db (comparisonFilter storeId filters previousPeriod))
                in if previousTotal = 0 then (if currentTotal > 0 then 100 else 0)
                   else (let growthRate = ((currentTotal - previousTotal) / previousTotal) * 100
                         in of_int (Math_round (growthRate * 100)) / 100)))"

definition calculateVsPreviousPeriodMetrics ::
  "database \<Rightarrow> env \<Rightarrow> string option \<Rightarrow> DashboardFilters option \<Rightarrow> rat \<Rightarrow> rat \<Rightarrow> rat \<Rightarrow> deltas" where
  "calculateVsPreviousPeriodMetrics db e storeId filters
       currentSales currentTransactions currentExpenses =
     (case vsPreviousPeriods e filters (getStoreTimezone storeId) of
        Inl err \<Rightarrow> zeroDeltas
      | Inr (currentPeriod, previousPeriod) \<Rightarrow>
          if fails db PreviousPeriodQuery then zeroDeltas
          else (case getExpenseStats db storeId (Some (rangeStart previousPeriod))
                       (Some (rangeEnd previousPeriod)) of
                  Inl err \<Rightarrow> zeroDeltas
                | Inr previousPeriodExpenses \<Rightarrow>
                    (let previousPeriodTransactions =
                           findTransactions db (comparisonFilter storeId filters previousPeriod);
                         previousSales = sumAmounts previousPeriodTransactions;
                         previousTransactions = of_nat (length previousPeriodTransactions);
                         previousExpenses = totalAmount previousPeriodExpenses
                     in percentageDeltas previousSales previousExpenses previousTransactions
                          currentSales currentExpenses currentTransactions)))"

text \<open>
  The comparison of today with yesterday. Without a filter object its base filter
  keeps the completed transactions only.
\<close>

definition vsYesterdayFilter :: "string option \<Rightarrow> DashboardFilters option \<Rightarrow> instant \<Rightarrow> instant \<Rightarrow> txn_filter" where
  "vsYesterdayFilter storeId filters lo hi =
     (case filters of
        Some f \<Rightarrow>
          \<lparr> match_store_id = storeMatch storeId,
            match_status = statusMatch (status f),
            match_payment_method = optionalMatch (paymentMethod f),
            match_order_source = optionalMatch (orderSource f),
            match_created_at = Some (lo, hi) \<rparr>
      | None \<Rightarrow>
          \<lparr> match_store_id = storeMatch storeId,
            match_status = StatusIs ''completed'',
            match_payment_method = None,
            match_order_source = None,
            match_created_at = Some (lo, hi) \<rparr>)"

definition calculateVsYesterdayMetrics ::
  "database \<Rightarrow> env \<Rightarrow> string option \<Rightarrow> DashboardFilters option \<Rightarrow> deltas" where
  "calculateVsYesterdayMetrics db e storeId filters =
     (let timezone = getStoreTimezone storeId;
          todayRange = getTodayRange e timezone;
          yesterday = setDate e (rangeStart todayRange) (getDate e (rangeStart todayRange) - 1);
          yesterdayEnd = setDate e (rangeEnd todayRange) (getDate e (rangeEnd todayRange) - 1)
      in if fails db VsYesterdayQuery then zeroDeltas
         else (case getExpensesByDateRange db (rangeStart todayRange) (rangeEnd todayRange) storeId of
                 Inl err \<Rightarrow> zeroDeltas
               | Inr todayExpenses \<Rightarrow>
                   (case getExpensesByDateRange db yesterday yesterdayEnd storeId of
                      Inl err \<Rightarrow> zeroDeltas
                    | Inr yesterdayExpenses \<Rightarrow>
                        (let todayMatched = findTransactions db
                                       (vsYesterdayFilter storeId filters (rangeStart todayRange)
                                          (rangeEnd todayRange));
                             yesterdayMatched = findTransactions db
                                        (vsYesterdayFilter storeId filters yesterday yesterdayEnd)
                         in percentageDeltas
                              (sumAmounts yesterdayMatched)
                              (sum_list (map expense_amount yesterdayExpenses))
                              (of_nat (length yesterdayMatched))
                              (sumAmounts todayMatched)
                              (sum_list (map expense_amount todayExpenses))
                              (of_nat (length todayMatched))))))"

subsection \<open>Sales series\<close>

text \<open>
  \<open>d.setHours(h, m, s, ms)\<close>; \<open>new Date(d.toLocaleString('en-US', {timeZone}))\<close>, the
  reading of the clock in the zone, to the second, taken for a time of the process
  zone; \<open>String(n)\<close> of an integer.
\<close>

definition setHours :: "env \<Rightarrow> instant \<Rightarrow> int \<Rightarrow> int \<Rightarrow> int \<Rightarrow> int \<Rightarrow> instant" where
  "setHours e t hour minute sec ms =
     Day (t + localOffset e) * msPerDay + MakeTime hour minute sec ms - localOffset e"

definition inTimezone :: "env \<Rightarrow> timezone \<Rightarrow> instant \<Rightarrow> instant" where
  "inTimezone e tz t = (t + tz) - (t + tz) mod 1000 - localOffset e"

fun decimal :: "nat \<Rightarrow> string" where
  "decimal n = (if n < 10 then [digit (int n)] else decimal (n div 10) @ [digit (int (n mod 10))])"

declare decimal.simps [simp del]

definition intString :: "int \<Rightarrow> string" where
  "intString i = (if i < 0 then ''-'' @ decimal (nat (- i)) else decimal (nat i))"

record SalesPoint =
  salesPeriod :: string
  salesRevenue :: rat
  salesTransactions :: nat

definition salesGroups :: "(Transaction \<Rightarrow> string) \<Rightarrow> Transaction list \<Rightarrow> SalesPoint list" where
  "salesGroups key ts =
     map (\<lambda>k. \<lparr> salesPeriod = k,
                 salesRevenue = sumAmounts (filter (\<lambda>t. key t = k) ts),
                 salesTransactions = length (filter (\<lambda>t. key t = k) ts) \<rparr>)
         (sortedKeys key ts)"

definition salesMap :: "SalesPoint list \<Rightarrow> (string \<rightharpoonup> rat \<times> nat)" where
  "salesMap rows =
     foldl (\<lambda>m item. m(salesPeriod item \<mapsto> (salesRevenue item, salesTransactions item)))
       Map.empty rows"

function fillSalesDays ::
  "env \<Rightarrow> timezone \<Rightarrow> (string \<rightharpoonup> rat \<times> nat) \<Rightarrow> instant \<Rightarrow> instant \<Rightarrow> SalesPoint list" where
  "fillSalesDays e tz m cursor endLocal =
     (if cursor \<le> endLocal
      then (let periodKey = formatDateForTimezone cursor tz;
                found = (case m periodKey of None \<Rightarrow> (0, 0) | Some v \<Rightarrow> v)
            in \<lparr> salesPeriod = periodKey, salesRevenue = fst found,
                 salesTransactions = snd found \<rparr>)
           # fillSalesDays e tz m (setDate e cursor (getDate e cursor + 1)) endLocal
      else [])"
  by pat_completeness auto
termination
  by (relation "measure (\<lambda>(e, tz, m, cursor, endLocal). nat (endLocal - cursor + 1))")
     (auto simp: setDate_getDate)

declare fillSalesDays.simps [simp del]

function fillSalesMonths ::
  "env \<Rightarrow> (string \<rightharpoonup> rat \<times> nat) \<Rightarrow> instant \<Rightarrow> instant \<Rightarrow> SalesPoint list" where
  "fillSalesMonths e m current endMonth =
     (if current \<le> endMonth
      then (let monthKey = intString (getFullYear e current) @ ''-''
                             @ pad2 (getMonth e current + 1);
                found = (case m monthKey of None \<Rightarrow> (0, 0) | Some v \<Rightarrow> v)
            in \<lparr> salesPeriod = monthKey, salesRevenue = fst found,
                 salesTransactions = snd found \<rparr>)
           # fillSalesMonths e m (setMonth e current (getMonth e current + 1)) endMonth
      else [])"
  by pat_completeness auto
termination
proof (relation "measure (\<lambda>(e, m, current, endMonth). nat (endMonth - current + 1))")
  show "wf (measure (\<lambda>(e, m, current, endMonth). nat (endMonth - current + 1)))"
    by simp
next
  fix e :: env and m :: "string \<rightharpoonup> rat \<times> nat" and current endMonth :: instant
  assume "current \<le> endMonth"
  moreover have "current + 28 * msPerDay \<le> setMonth e current (getMonth e current + 1)"
    by (rule setMonth_next)
  ultimately show "((e, m, setMonth e current (getMonth e current + 1), endMonth),
                    (e, m, current, endMonth))
                   \<in> measure (\<lambda>(e, m, current, endMonth). nat (endMonth - current + 1))"
    by simp
qed

declare fillSalesMonths.simps [simp del]

text \<open>
  \<open>getSalesAnalyticsByDateRange\<close>, of whose result the dashboard reads \<open>salesByPeriod\<close>.
  Its query names the store as it is given, the two statuses and the window. Failures
  are logged and thrown again.
\<close>

definition getSalesAnalyticsByDateRange ::
  "database \<Rightarrow> env \<Rightarrow> string option \<Rightarrow> instant \<Rightarrow> instant \<Rightarrow> error + SalesPoint list" where
  "getSalesAnalyticsByDateRange db e storeId startDate' endDate' =
     (let filterQuery = \<lparr> match_store_id = Some storeId,
                           match_status = StatusIn [''completed'', ''pending''],
                           match_payment_method = None,
                           match_order_source = None,
                           match_created_at = Some (startDate', endDate') \<rparr>;
          matched = findTransactions db filterQuery;
          daysDiff = - ((startDate' - endDate') div msPerDay);
          timezone = getStoreTimezone storeId;
          startInTimezone = inTimezone e timezone startDate';
          endInTimezone = inTimezone e timezone endDate'
      in query db SalesAnalyticsByDateRangeQuery
           (if daysDiff \<le> 31
            then (let dailyAggregation =
                        salesGroups (\<lambda>t. dayString timezone (created_at t)) matched;
                      startLocal = newDate e (getFullYear e startInTimezone)
                                     (getMonth e startInTimezone) (getDate e startInTimezone)
                                     0 0 0 0;
                      endLocal = newDate e (getFullYear e endInTimezone)
                                   (getMonth e endInTimezone) (getDate e endInTimezone) 0 0 0 0
                  in fillSalesDays e timezone (salesMap dailyAggregation) startLocal endLocal)
            else (let monthlyAggregation =
                        salesGroups (\<lambda>t. monthString timezone (created_at t)) matched;
                      current = newDate e (getFullYear e startInTimezone)
                                  (getMonth e startInTimezone) 1 0 0 0 0;
                      endMonth = newDate e (getFullYear e endInTimezone)
                                   (getMonth e endInTimezone + 1) 0 23 59 59 0
                  in fillSalesMonths e (salesMap monthlyAggregation) current endMonth)))"

datatype dateFormat = HourFormat | DayFormat | MonthFormat

definition formatPeriod :: "dateFormat \<Rightarrow> timezone \<Rightarrow> instant \<Rightarrow> string" where
  "formatPeriod fmt tz t =
     (case fmt of HourFormat \<Rightarrow> hourString tz t | DayFormat \<Rightarrow> dayString tz t
      | MonthFormat \<Rightarrow> monthString tz t)"

text \<open>
  \<open>getSalesByPeriod\<close>, by the name of a period: the range, the format of the buckets,
  and whether the days without sales are filled in. A failure is caught and gives the
  empty series.
\<close>

definition periodPlan :: "env \<Rightarrow> timezone \<Rightarrow> string option \<Rightarrow> DateRange \<times> dateFormat \<times> bool" where
  "periodPlan e tz p =
     (if p = Some ''today'' then (getTodayRange e tz, HourFormat, False)
      else if p = Some ''week'' \<or> p = Some ''7d'' then (getLastNDaysRange e 7 tz, DayFormat, True)
      else if p = Some ''month'' \<or> p = Some ''30d''
        then (getLastNDaysRange e 30 tz, DayFormat, True)
      else if p = Some ''90d'' then (getLastNDaysRange e 90 tz, DayFormat, True)
      else if p = Some ''1y'' then (getLastNDaysRange e 365 tz, MonthFormat, False)
      else (getLastNDaysRange e 30 tz, MonthFormat, False))"

definition getSalesByPeriod ::
  "database \<Rightarrow> env \<Rightarrow> string option \<Rightarrow> string option \<Rightarrow> SalesPoint list" where
  "getSalesByPeriod db e storeId p =
     (if fails db SalesByPeriodQuery then []
      else (case periodPlan e (getStoreTimezone storeId) p of
              (plannedRange, fmt, fillMissingDays) \<Rightarrow>
                (let timezone = getStoreTimezone storeId;
                     matchFilter = \<lparr> match_store_id = storeMatch storeId,
                                     match_status = StatusIn [''completed'', ''pending''],
                                     match_payment_method = None,
                                     match_order_source = None,
                                     match_created_at = Some (rangeStart plannedRange, rangeEnd plannedRange) \<rparr>;
                     aggregated = salesGroups (\<lambda>t. formatPeriod fmt timezone (created_at t))
                                    (findTransactions db matchFilter)
                 in if fillMissingDays
                    then (let startLocal = newDate e (getFullYear e (rangeStart plannedRange))
                                             (getMonth e (rangeStart plannedRange))
                                             (getDate e (rangeStart plannedRange)) 0 0 0 0;
                              endLocal = newDate e (getFullYear e (rangeEnd plannedRange))
                                           (getMonth e (rangeEnd plannedRange))
                                           (getDate e (rangeEnd plannedRange)) 0 0 0 0
                          in fillSalesDays e timezone (salesMap aggregated) startLocal endLocal)
                    else aggregated)))"

text \<open>
  \<open>getSalesByMonth\<close>: the twelve months before now and the current one, whatever the
  window of the filter. A failure is caught and gives the empty series.
\<close>

record MonthSales =
  monthLabel :: string
  sales :: rat
  monthTransactions :: nat
  onlineSales :: rat
  inStoreSales :: rat

definition salesByMonthFilter ::
  "string option \<Rightarrow> DashboardFilters option \<Rightarrow> instant \<Rightarrow> instant \<Rightarrow> txn_filter" where
  "salesByMonthFilter storeId filters twelveMonthsAgo endOfToday =
     (case filters of
        Some f \<Rightarrow>
          \<lparr> match_store_id = storeMatch storeId,
            match_status = statusMatch (status f),
            match_payment_method = optionalMatch (paymentMethod f),
            match_order_source = optionalMatch (orderSource f),
            match_created_at = Some (twelveMonthsAgo, endOfToday) \<rparr>
      | None \<Rightarrow>
          \<lparr> match_store_id = storeMatch storeId,
            match_status = StatusIn [''completed'', ''pending''],
            match_payment_method = None,
            match_order_source = None,
            match_created_at = Some (twelveMonthsAgo, endOfToday) \<rparr>)"

definition getSalesByMonth ::
  "database \<Rightarrow> env \<Rightarrow> string option \<Rightarrow> DashboardFilters option \<Rightarrow> MonthSales list" where
  "getSalesByMonth db e storeId filters =
     (if fails db SalesByMonthQuery then []
      else (let timezone = getStoreTimezone storeId;
                nowInTimezone = inTimezone e timezone (now e);
                back = setMonth e nowInTimezone (getMonth e nowInTimezone - 12);
                twelveMonthsAgo = setHours e (setDate e back 1) 0 0 0 0;
                endOfToday = setHours e nowInTimezone 23 59 59 999;
                matched = findTransactions db
                            (salesByMonthFilter storeId filters twelveMonthsAgo endOfToday);
                key = (\<lambda>t. monthString timezone (created_at t))
            in map (\<lambda>k. let own = filter (\<lambda>t. key t = k) matched
                        in \<lparr> monthLabel = k,
                             sales = sumAmounts own,
                             monthTransactions = length own,
                             onlineSales =
                               sumAmounts (filter (\<lambda>t. order_source t = Some ''online'') own),
                             inStoreSales =
                               sumAmounts (filter (\<lambda>t. order_source t = Some ''in-store''
                                                       \<or> order_source t = None) own) \<rparr>)
                   (sortedKeys key matched)))"

subsection \<open>Breakdowns\<close>

text \<open>
  The rows of a \<open>$group\<close> on a field that may be null, in the order in which the values
  first occur, each with the sum of its amounts.
\<close>

definition groupRows ::
  "(Transaction \<Rightarrow> string option) \<Rightarrow> Transaction list \<Rightarrow> (string option \<times> rat) list" where
  "groupRows key ts =
     map (\<lambda>k. (k, sumAmounts (filter (\<lambda>t. key t = k) ts))) (remdups (map key ts))"

text \<open>\<open>orderSourcesData[item._id || 'in-store'] = item.totalAmount\<close>, row after row.\<close>

definition collapseOrderSources :: "(string option \<times> rat) list \<Rightarrow> (string \<rightharpoonup> rat)" where
  "collapseOrderSources rows =
     foldl (\<lambda>m row. m(orElse (fst row) ''in-store'' \<mapsto> snd row)) Map.empty rows"

subsection \<open>getDashboardMetrics\<close>

text \<open>
  The report. The four deltas against the previous period and the four against
  yesterday are kept as two records; \<open>filterInfo\<close> is the date range the report states
  for itself. The response cache is left out: a failure of the cache is swallowed in
  the source and the report is computed as on a miss.
\<close>

record DashboardMetrics =
  totalSales :: rat
  totalTransactions :: nat
  averageTransactionValue :: rat
  growthRate :: rat
  vsPreviousPeriod :: deltas
  vsYesterday :: deltas
  totalProducts :: nat
  lowStockItems :: nat
  todaySales :: rat
  monthlySales :: rat
  totalExpenses :: rat
  monthlyExpenses :: rat
  netProfit :: rat
  topProducts :: "ProductSales list"
  paymentMethods :: "string \<rightharpoonup> rat"
  orderSources :: "string \<rightharpoonup> rat"
  recentTransactions :: "RecentTransaction list"
  salesByMonth :: "MonthSales list"
  salesByPeriod :: "SalesPoint list option"
  expensesByPeriod :: "ExpensePoint list"
  filterInfo :: DateRange

text \<open>Step 1: the primary range, the last 30 days up to now when no filter gives one.\<close>

definition primaryRange :: "env \<Rightarrow> DateRange option \<Rightarrow> DateRange" where
  "primaryRange e primaryDateFilter =
     (case primaryDateFilter of
        Some r \<Rightarrow> \<lparr> rangeStart = rangeStart r, rangeEnd = rangeEnd r \<rparr>
      | None \<Rightarrow> \<lparr> rangeStart = setDate e (now e) (getDate e (now e) - 30),
                   rangeEnd = now e \<rparr>)"

text \<open>Step 3: the month of the monthly figures, the selected month or the current one.\<close>

definition monthlyRange :: "env \<Rightarrow> DashboardFilters option \<Rightarrow> timezone \<Rightarrow> error + DateRange" where
  "monthlyRange e filters tz =
     (if numberTruthy (optField month filters) \<and> numberTruthy (optField year filters)
      then getMonthYearRange e (the (optField month filters)) (the (optField year filters)) tz
      else Inr (getThisMonthRange e tz))"

text \<open>The series of the sales by period, on the primary range when the filter gives one.\<close>

definition salesByPeriodData ::
  "database \<Rightarrow> env \<Rightarrow> string option \<Rightarrow> DashboardFilters option \<Rightarrow> DateRange option
     \<Rightarrow> DateRange \<Rightarrow> error + SalesPoint list option" where
  "salesByPeriodData db e storeId filters primaryDateFilter primary =
     (case primaryDateFilter of
        Some r \<Rightarrow>
          andThen (getSalesAnalyticsByDateRange db e storeId (rangeStart primary) (rangeEnd primary))
            (\<lambda>series. Inr (Some series))
      | None \<Rightarrow>
          if truthy (optField dateRange filters)
          then Inr (Some (getSalesByPeriod db e storeId (optField dateRange filters)))
          else Inr None)"

definition getDashboardMetrics ::
  "database \<Rightarrow> env \<Rightarrow> string option \<Rightarrow> DashboardFilters option \<Rightarrow> error + DashboardMetrics" where
  "getDashboardMetrics db e storeId filters =
     (let storeTimezone = getStoreTimezone storeId
      in andThen (getDateFilter e filters storeTimezone) (\<lambda>primaryDateFilter.
         let primary = primaryRange e primaryDateFilter;
             primaryStartDate = rangeStart primary;
             primaryEndDate = rangeEnd primary;
             txnFilter = transactionFilter storeId filters primaryStartDate primaryEndDate;
             todayRange = getTodayRange e storeTimezone
         in andThen (monthlyRange e filters storeTimezone) (\<lambda>monthRange.
         let todayFilter = txnFilter
               \<lparr> match_created_at := Some (rangeStart todayRange, rangeEnd todayRange) \<rparr>;
             monthlyFilter = txnFilter
               \<lparr> match_created_at := Some (rangeStart monthRange, rangeEnd monthRange) \<rparr>
         in andThen (getExpenseStats db storeId (Some primaryStartDate) (Some primaryEndDate))
              (\<lambda>expenseStats.
         let expenseSeries = getExpenseSeries db e primaryStartDate primaryEndDate storeId
         in andThen (getExpenseStats db storeId (Some (rangeStart monthRange))
                       (Some (rangeEnd monthRange)))
              (\<lambda>monthlyExpenseStats.
         let expenseTotal = totalAmount expenseStats
         in andThen (query db ProductStatsQuery (productStats db storeId)) (\<lambda>productData.
            andThen (query db TransactionStatsQuery
                       (stats db txnFilter, stats db todayFilter, stats db monthlyFilter))
              (\<lambda>transactionData.
            andThen (query db RecentTransactionsQuery (recentTransactionsOf db txnFilter))
              (\<lambda>recent.
         let topProductsData = getTopProducts db e storeId 5 filters;
             totalStats = fst transactionData;
             todayStats = fst (snd transactionData);
             monthlyStats = snd (snd transactionData);
             average = (if snd totalStats > 0
                        then fst totalStats / of_nat (snd totalStats) else 0);
             growth = calculateGrowthRate db e storeId filters;
             vsPreviousPeriodMetrics =
               calculateVsPreviousPeriodMetrics db e storeId filters
                 (fst totalStats) (of_nat (snd totalStats)) expenseTotal;
             vsYesterdayMetrics = calculateVsYesterdayMetrics db e storeId filters
         in andThen (salesByPeriodData db e storeId filters primaryDateFilter primary)
              (\<lambda>salesSeries.
         let salesByMonthData = getSalesByMonth db e storeId filters
         in andThen (query db PaymentMethodsQuery
                       (groupRows payment_method (findTransactions db txnFilter)))
              (\<lambda>paymentMethodsAggregation.
            andThen (query db OrderSourcesQuery
                       (groupRows order_source (findTransactions db txnFilter)))
              (\<lambda>orderSourcesAggregation.
            Inr \<lparr> totalSales = fst totalStats,
                  totalTransactions = snd totalStats,
                  averageTransactionValue = average,
                  growthRate = growth,
                  vsPreviousPeriod = vsPreviousPeriodMetrics,
                  vsYesterday = vsYesterdayMetrics,
                  totalProducts = fst productData,
                  lowStockItems = snd productData,
                  todaySales = fst todayStats,
                  monthlySales = fst monthlyStats,
                  totalExpenses = expenseTotal,
                  monthlyExpenses = totalAmount monthlyExpenseStats,
                  netProfit = fst totalStats - expenseTotal,
                  topProducts = topProductsData,
                  paymentMethods = collapsePaymentMethods Map.empty paymentMethodsAggregation,
                  orderSources = collapseOrderSources orderSourcesAggregation,
                  recentTransactions = recent,
                  salesByMonth = salesByMonthData,
                  salesByPeriod = salesSeries,
                  expensesByPeriod = expenseSeries,
                  filterInfo = primary \<rparr>)))))))))))"

section \<open>Properties of the date utilities\<close>

text \<open>Definitions to unfold when a date is computed on numerals.\<close>

lemmas calendar_defs = Day_def TimeWithinDay_def YearFromDay_def MonthFromDay_def DateFromDay_def
  DayFromYear_def MakeDay_def MakeTime_def monthOffset_def InLeapYear_def
  yearOf_def monthOf_def dateOf_def hoursOf_def getFullYear_def getMonth_def getDate_def newDate_def

lemmas format_defs = dayString_def monthString_def pad2_def pad4_def digit_def formatDateForTimezone_def

subsection \<open>getTodayRange\<close>

text \<open>
  Claim C4 says that \<open>getTodayRange tz\<close> is the current day as observed in the zone
  \<open>tz\<close> of the store. The code never reads \<open>tz\<close>: the window is the current day of the
  process zone. With the process on UTC and the store three hours ahead, at
  2025-01-01T22:30Z (01:30 on the 2nd in the store) the code returns the 1st of January
  in UTC, where the specification wants 2025-01-01T21:00Z to 2025-01-02T20:59:59.999Z.
\<close>

theorem getTodayRange_ignores_timezone:
  "getTodayRange e tz = getTodayRange e DEFAULT_TIMEZONE
   \<and> getTodayRange \<lparr> now = 1735770600000, localOffset = 0, toNumber = decimalNumber,
                       parseDate = (\<lambda>s. None) \<rparr> DEFAULT_TIMEZONE
       = \<lparr> rangeStart = 1735689600000, rangeEnd = 1735775999999 \<rparr>
   \<and> todayRangeSpec 1735770600000 DEFAULT_TIMEZONE
       = \<lparr> rangeStart = 1735765200000, rangeEnd = 1735851599999 \<rparr>"
proof -
  have independent: "getTodayRange e tz = getTodayRange e DEFAULT_TIMEZONE"
    by (simp add: getTodayRange_def)
  have code: "getTodayRange \<lparr> now = 1735770600000, localOffset = 0, toNumber = decimalNumber,
                       parseDate = (\<lambda>s. None) \<rparr> DEFAULT_TIMEZONE
       = \<lparr> rangeStart = 1735689600000, rangeEnd = 1735775999999 \<rparr>"
    unfolding getTodayRange_def Let_def by (simp add: calendar_defs)
  have spec: "todayRangeSpec 1735770600000 DEFAULT_TIMEZONE
       = \<lparr> rangeStart = 1735765200000, rangeEnd = 1735851599999 \<rparr>"
    by (simp add: todayRangeSpec_def DEFAULT_TIMEZONE_def Day_def)
  show ?thesis using independent code spec by blast
qed

subsection \<open>parseDateRange\<close>















subsection \<open>Previous month of a month and year filter\<close>

lemma newDate_end_of_previous_day:
  "newDate e y m 0 23 59 59 999 + 1 = newDate e y m 1 0 0 0 0"
  by (simp add: newDate_def MakeDay_def MakeTime_def Let_def)

lemma newDate_month_12: "1900 \<le> y \<Longrightarrow> newDate e y 12 d h mi s ms = newDate e (y + 1) 0 d h mi s ms"
  by (simp add: newDate_def MakeDay_def Let_def)


text \<open>
  Claim C8, as the code has it. For a filter with month \<open>m\<close> in 1..12 and year \<open>y\<close> in
  1900..2100, and \<open>y \<ge> 1901\<close> when \<open>m = 1\<close>, the previous period of the comparison is the
  range \<open>getMonthYearRange\<close> gives for December of \<open>y - 1\<close> when \<open>m = 1\<close> and for month
  \<open>m - 1\<close> of \<open>y\<close> otherwise: it starts at the local midnight of the first day of that
  month and ends one millisecond before the current period starts.
\<close>

theorem previous_month_wraparound:
  assumes "month f = Some m" "year f = Some y"
    and "1 \<le> m" "m \<le> 12" "1900 \<le> y" "y \<le> 2100" "m = 1 \<longrightarrow> 1901 \<le> y"
  shows "\<exists>current previous.
           vsPreviousPeriods e (Some f) tz = Inr (current, previous)
           \<and> getMonthYearRange e m y tz = Inr current
           \<and> getMonthYearRange e (if m = 1 then 12 else m - 1) (if m = 1 then y - 1 else y) tz
               = Inr previous
           \<and> rangeStart previous
               = newDate e (if m = 1 then y - 1 else y) ((if m = 1 then 12 else m - 1) - 1) 1 0 0 0 0
           \<and> rangeEnd previous + 1 = rangeStart current"
proof -
  define pm where "pm = (if m = 1 then 12 else m - 1)"
  define py where "py = (if m = 1 then y - 1 else y)"
  define current where
    "current = \<lparr> rangeStart = newDate e y (m - 1) 1 0 0 0 0,
                 rangeEnd = newDate e y (m - 1 + 1) 0 23 59 59 999 \<rparr>"
  define previous where
    "previous = \<lparr> rangeStart = newDate e py (pm - 1) 1 0 0 0 0,
                  rangeEnd = newDate e py (pm - 1 + 1) 0 23 59 59 999 \<rparr>"
  have pm_range: "1 \<le> pm" "pm \<le> 12" using assms by (auto simp: pm_def)
  have py_range: "1900 \<le> py" "py \<le> 2100" using assms by (auto simp: py_def)
  have cur: "getMonthYearRange e m y tz = Inr current"
    using assms by (simp add: getMonthYearRange_def current_def Let_def)
  have prev: "getMonthYearRange e pm py tz = Inr previous"
    using pm_range py_range by (simp add: getMonthYearRange_def previous_def Let_def)
  have resolved: "vsPreviousPeriods e (Some f) tz = Inr (current, previous)"
  proof (cases "m = 1")
    case True
    then have "getMonthYearRange e 12 (y - 1) tz = Inr previous"
      using prev by (simp add: pm_def py_def)
    moreover have "y \<noteq> 0" using assms by simp
    ultimately show ?thesis
      using True assms(1,2) cur
      by (simp add: vsPreviousPeriods_def optField_def numberTruthy_def andThen_def Let_def)
  next
    case False
    then have "getMonthYearRange e (m - 1) y tz = Inr previous"
      using prev by (simp add: pm_def py_def)
    moreover have "\<not> m < 2" "m \<noteq> 0" "y \<noteq> 0" using False assms by simp_all
    ultimately show ?thesis
      using assms(1,2) cur
      by (simp add: vsPreviousPeriods_def optField_def numberTruthy_def andThen_def Let_def)
  qed
  have "rangeEnd previous + 1 = newDate e py pm 1 0 0 0 0"
    by (simp add: previous_def newDate_end_of_previous_day)
  also have "\<dots> = newDate e y (m - 1) 1 0 0 0 0"
  proof (cases "m = 1")
    case True
    then have "pm = 12" "py = y - 1" by (simp_all add: pm_def py_def)
    moreover have "1900 \<le> y - 1" using True assms by simp
    ultimately show ?thesis using True newDate_month_12 [of "y - 1" e 1 0 0 0 0] by simp
  next
    case False
    then show ?thesis by (simp add: pm_def py_def)
  qed
  finally have adjacent: "rangeEnd previous + 1 = rangeStart current"
    by (simp add: current_def)
  have start: "rangeStart previous = newDate e py (pm - 1) 1 0 0 0 0"
    by (simp add: previous_def)
  show ?thesis
    using resolved cur prev start adjacent unfolding pm_def py_def by blast
qed


theorem previous_month_wraparound_witness:
  "\<exists>previous.
     vsPreviousPeriods
       \<lparr> now = 1735770600000, localOffset = 0, toNumber = decimalNumber, parseDate = (\<lambda>s. None) \<rparr>
       (Some \<lparr> dateRange = None, paymentMethod = None, orderSource = None, status = None,
               startDate = None, endDate = None, month = Some 1, year = Some 2025 \<rparr>) 0
       = Inr (\<lparr> rangeStart = 1735689600000, rangeEnd = 1738367999999 \<rparr>, previous)
     \<and> rangeStart previous = 1733011200000 \<and> rangeEnd previous = 1735689599999"
proof -
  define e where "e = \<lparr> now = 1735770600000, localOffset = 0, toNumber = decimalNumber,
                        parseDate = (\<lambda>s. None) \<rparr>"
  define f where "f = \<lparr> dateRange = None, paymentMethod = None, orderSource = None, status = None,
               startDate = None, endDate = None, month = Some (1::int), year = Some (2025::int) \<rparr>"
  have h: "month f = Some 1" "year f = Some 2025" "(1::int) \<le> 1" "(1::int) \<le> 12"
    "(1900::int) \<le> 2025" "(2025::int) \<le> 2100" "(1::int) = 1 \<longrightarrow> (1901::int) \<le> 2025"
    by (simp_all add: f_def)
  obtain current previous where
    r: "vsPreviousPeriods e (Some f) 0 = Inr (current, previous)"
    and c: "getMonthYearRange e 1 2025 0 = Inr current"
    and s: "rangeStart previous = newDate e (if (1::int) = 1 then 2025 - 1 else 2025)
                ((if (1::int) = 1 then 12 else 1 - 1) - 1) 1 0 0 0 0"
    and a: "rangeEnd previous + 1 = rangeStart current"
    using previous_month_wraparound [OF h, of e 0] by blast
  have cur: "current = \<lparr> rangeStart = 1735689600000, rangeEnd = 1738367999999 \<rparr>"
    using c by (simp add: getMonthYearRange_def e_def calendar_defs Let_def)
  have "rangeStart previous = 1733011200000"
    using s by (simp add: e_def calendar_defs Let_def)
  moreover have "rangeEnd previous = 1735689599999"
    using a cur by simp
  ultimately show ?thesis using r cur unfolding e_def f_def by blast
qed


text \<open>
  Claim C8 as stated covers every year. For January 1900 the year before lies outside
  the years \<open>getMonthYearRange\<close> accepts, and no previous period results.
\<close>

theorem previous_month_wraparound_counterexample:
  "vsPreviousPeriods
     \<lparr> now = 1735770600000, localOffset = 0, toNumber = decimalNumber, parseDate = (\<lambda>s. None) \<rparr>
     (Some \<lparr> dateRange = None, paymentMethod = None, orderSource = None, status = None,
             startDate = None, endDate = None, month = Some 1, year = Some 1900 \<rparr>) 0
   = Inl InvalidYear"
  by (simp add: vsPreviousPeriods_def optField_def numberTruthy_def andThen_def Let_def
        getMonthYearRange_def)

section \<open>Properties of the expense series\<close>

text \<open>
  Claim C1 says that the series has one bucket for every month of a window longer than
  31 days. The monthly branch returns the grouped rows as they are: for the window from
  January to March 2025 (store and process both three hours ahead of UTC) with one
  expense in January and one in March, there is no bucket for February.
\<close>

theorem getExpenseSeries_monthly_gap:
  "getExpenseSeries
     \<lparr> transactions = [],
       expenses = [\<lparr> expense_store_id = ''s1'', expense_date = 1735770600000, expense_amount = 10 \<rparr>,
                   \<lparr> expense_store_id = ''s1'', expense_date = 1740954600000, expense_amount = 5 \<rparr>],
       products = [], fails = (\<lambda>c. False) \<rparr>
     \<lparr> now = 1743465600000, localOffset = 3 * 3600000, toNumber = decimalNumber,
       parseDate = (\<lambda>s. None) \<rparr>
     1735678800000 1743454799999 (Some ''s1'')
   = [\<lparr> period = ''2025-01'', amount = 10, count = 1 \<rparr>,
      \<lparr> period = ''2025-03'', amount = 5, count = 1 \<rparr>]"
proof -
  have january: "monthString 10800000 1735770600000 = ''2025-01''"
    by (simp add: calendar_defs format_defs Let_def)
  have march: "monthString 10800000 1740954600000 = ''2025-03''"
    by (simp add: calendar_defs format_defs Let_def)
  have keys: "sort [''2025-01'', ''2025-03''] = [''2025-01'', ''2025-03'']"
    by code_simp
  have groups: "expenseGroups (\<lambda>x. monthString 10800000 (expense_date x))
      [\<lparr> expense_store_id = ''s1'', expense_date = 1735770600000, expense_amount = 10 \<rparr>,
       \<lparr> expense_store_id = ''s1'', expense_date = 1740954600000, expense_amount = 5 \<rparr>]
      = [\<lparr> period = ''2025-01'', amount = 10, count = 1 \<rparr>,
         \<lparr> period = ''2025-03'', amount = 5, count = 1 \<rparr>]"
    by (simp add: expenseGroups_def sortedKeys_def january march keys)
  show ?thesis
    by (simp add: getExpenseSeries_def matchesExpense_def truthy_def getStoreTimezone_def
          DEFAULT_TIMEZONE_def Let_def groups)
qed

section \<open>Properties of the dashboard\<close>

subsection \<open>What a returned report holds, and when a report is returned\<close>

lemma andThen_Inr: "andThen r f = Inr y \<longleftrightarrow> (\<exists>x. r = Inr x \<and> f x = Inr y)"
  by (cases r) (simp_all add: andThen_def)

lemma andThen_Inl: "andThen (Inl err) f = Inl err"
  by (simp add: andThen_def)

lemma andThen_Inr_apply: "andThen (Inr x) f = f x"
  by (simp add: andThen_def)

lemma query_Inr: "query db c v = Inr x \<longleftrightarrow> \<not> fails db c \<and> x = v"
  by (auto simp: query_def)

lemma getExpenseStats_Inr:
  "getExpenseStats db storeId a b = Inr st \<longleftrightarrow>
     \<not> fails db ExpenseStatsQuery
     \<and> st = \<lparr> expenseCount = length (filter (matchesExpense storeId a b) (expenses db)),
              totalAmount = sum_list (map expense_amount
                              (filter (matchesExpense storeId a b) (expenses db))) \<rparr>"
  by (auto simp: getExpenseStats_def Let_def)

lemma dashboard_fields:
  assumes "getDashboardMetrics db e storeId filters = Inr d"
  shows "\<exists>pf mr.
           getDateFilter e filters (getStoreTimezone storeId) = Inr pf
           \<and> monthlyRange e filters (getStoreTimezone storeId) = Inr mr
           \<and> salesByPeriodData db e storeId filters pf (primaryRange e pf) = Inr (salesByPeriod d)
           \<and> \<not> fails db ExpenseStatsQuery \<and> \<not> fails db ProductStatsQuery
           \<and> \<not> fails db TransactionStatsQuery \<and> \<not> fails db RecentTransactionsQuery
           \<and> \<not> fails db PaymentMethodsQuery \<and> \<not> fails db OrderSourcesQuery
           \<and> filterInfo d = primaryRange e pf
           \<and> totalSales d = sumAmounts (findTransactions db
                 (transactionFilter storeId filters (rangeStart (primaryRange e pf))
                    (rangeEnd (primaryRange e pf))))
           \<and> totalTransactions d = length (findTransactions db
                 (transactionFilter storeId filters (rangeStart (primaryRange e pf))
                    (rangeEnd (primaryRange e pf))))
           \<and> totalExpenses d = sum_list (map expense_amount
                 (filter (matchesExpense storeId (Some (rangeStart (primaryRange e pf)))
                            (Some (rangeEnd (primaryRange e pf)))) (expenses db)))
           \<and> expensesByPeriod d = getExpenseSeries db e (rangeStart (primaryRange e pf))
                 (rangeEnd (primaryRange e pf)) storeId
           \<and> netProfit d = totalSales d - totalExpenses d
           \<and> topProducts d = getTopProducts db e storeId 5 filters
           \<and> growthRate d = calculateGrowthRate db e storeId filters
           \<and> vsPreviousPeriod d = calculateVsPreviousPeriodMetrics db e storeId filters
                 (totalSales d) (of_nat (totalTransactions d)) (totalExpenses d)
           \<and> vsYesterday d = calculateVsYesterdayMetrics db e storeId filters
           \<and> salesByMonth d = getSalesByMonth db e storeId filters
           \<and> paymentMethods d = collapsePaymentMethods Map.empty
                 (groupRows payment_method (findTransactions db
                   (transactionFilter storeId filters (rangeStart (primaryRange e pf))
                      (rangeEnd (primaryRange e pf)))))"
  using assms
  unfolding getDashboardMetrics_def Let_def
  by (auto simp: andThen_Inr query_Inr getExpenseStats_Inr stats_def)

lemma dashboard_returns:
  assumes "getDateFilter e filters (getStoreTimezone storeId) = Inr pf"
    and "monthlyRange e filters (getStoreTimezone storeId) = Inr mr"
    and "salesByPeriodData db e storeId filters pf (primaryRange e pf) = Inr sp"
    and "\<not> fails db ExpenseStatsQuery" "\<not> fails db ProductStatsQuery"
    and "\<not> fails db TransactionStatsQuery" "\<not> fails db RecentTransactionsQuery"
    and "\<not> fails db PaymentMethodsQuery" "\<not> fails db OrderSourcesQuery"
  shows "\<exists>d. getDashboardMetrics db e storeId filters = Inr d"
  using assms
  unfolding getDashboardMetrics_def Let_def
  by (simp add: andThen_Inr_apply query_def getExpenseStats_def Let_def)

subsection \<open>The primary period\<close>




subsection \<open>The status condition of the aggregations\<close>

lemma statusMatch_cases:
  "statusMatch st =
     (if st = None \<or> st = Some [] \<or> st = Some ''all'' then StatusIn [''completed'', ''pending'']
      else StatusIs (the st))"
  by (cases st) (auto simp: statusMatch_def truthy_def)

text \<open>
  Claim C6, as the code has it. The point totals, the top products, the sales by month,
  the growth rate and, when the request carries a filter object, the day-over-day
  comparison all match transactions on the same status condition, computed from the
  filter's status: the two statuses \<open>completed\<close> and \<open>pending\<close> when the status is absent,
  empty or \<open>all\<close>, and the given status alone otherwise. A matched transaction satisfies
  the status condition of its filter.
\<close>

theorem status_filter_default:
  "match_status (transactionFilter storeId filters s t) = statusMatch (optField status filters)
   \<and> (topProductsFilter e storeId filters = Inr tf
        \<longrightarrow> match_status tf = statusMatch (optField status filters))
   \<and> match_status (salesByMonthFilter storeId filters a b) = statusMatch (optField status filters)
   \<and> match_status (comparisonFilter storeId filters r) = statusMatch (optField status filters)
   \<and> match_status (vsYesterdayFilter storeId (Some f) lo hi) = statusMatch (status f)
   \<and> statusMatch st =
       (if st = None \<or> st = Some [] \<or> st = Some ''all''
        then StatusIn [''completed'', ''pending''] else StatusIs (the st))
   \<and> (matchesTransaction g x \<longrightarrow>
        (case match_status g of
           StatusIs wanted \<Rightarrow> txn_status x = wanted
         | StatusIn wanted \<Rightarrow> txn_status x \<in> set wanted))"
proof -
  have none: "statusMatch None = StatusIn [''completed'', ''pending'']"
    by (simp add: statusMatch_def truthy_def)
  have totals: "match_status (transactionFilter storeId filters s t)
                  = statusMatch (optField status filters)"
    by (simp add: transactionFilter_def)
  have top: "match_status tf = statusMatch (optField status filters)"
    if "topProductsFilter e storeId filters = Inr tf"
    using that none
    by (cases filters) (auto simp: topProductsFilter_def optField_def andThen_Inr)
  have months: "match_status (salesByMonthFilter storeId filters a b)
                  = statusMatch (optField status filters)"
    using none by (cases filters) (simp_all add: salesByMonthFilter_def optField_def)
  have growth: "match_status (comparisonFilter storeId filters r)
                  = statusMatch (optField status filters)"
    using none by (cases filters) (simp_all add: comparisonFilter_def optField_def)
  have yesterday: "match_status (vsYesterdayFilter storeId (Some f) lo hi) = statusMatch (status f)"
    by (simp add: vsYesterdayFilter_def)
  have meaning: "(case match_status g of
           StatusIs wanted \<Rightarrow> txn_status x = wanted
         | StatusIn wanted \<Rightarrow> txn_status x \<in> set wanted)" if "matchesTransaction g x"
    using that by (simp add: matchesTransaction_def)
  show ?thesis
    using totals top months growth yesterday statusMatch_cases [of st] meaning by blast
qed


text \<open>
  The top products of a request without filters match on \<open>completed\<close> and \<open>pending\<close>, a
  pending transaction is matched, and the status \<open>voided\<close> restricts to itself.
\<close>

theorem status_filter_default_witness:
  "topProductsFilter
      \<lparr> now = 1735770600000, localOffset = 0, toNumber = decimalNumber, parseDate = (\<lambda>s. None) \<rparr>
      None None
     = Inr \<lparr> match_store_id = None, match_status = StatusIn [''completed'', ''pending''],
             match_payment_method = None, match_order_source = None, match_created_at = None \<rparr>
   \<and> matchesTransaction
        \<lparr> match_store_id = None, match_status = StatusIn [''completed'', ''pending''],
          match_payment_method = None, match_order_source = None, match_created_at = None \<rparr>
        \<lparr> txn_id = ''t1'', store_id = ''s1'', items = [], total_amount = Some 40,
          payment_method = Some ''cash'', txn_status = ''pending'', order_source = None,
          created_at = 1735770000000 \<rparr>
   \<and> statusMatch (Some ''voided'') = StatusIs ''voided''
   \<and> statusMatch (Some ''all'') = StatusIn [''completed'', ''pending'']"
proof -
  define e where "e = \<lparr> now = 1735770600000, localOffset = 0, toNumber = decimalNumber,
                        parseDate = (\<lambda>s :: string. None :: instant option) \<rparr>"
  define g where "g = \<lparr> match_store_id = None, match_status = StatusIn [''completed'', ''pending''],
          match_payment_method = None, match_order_source = None, match_created_at = None \<rparr>"
  define x where "x = \<lparr> txn_id = ''t1'', store_id = ''s1'', items = [], total_amount = Some 40,
          payment_method = Some ''cash'', txn_status = ''pending'', order_source = None,
          created_at = 1735770000000 \<rparr>"
  have top: "topProductsFilter e None None = Inr g"
    by (simp add: topProductsFilter_def storeMatch_def truthy_def g_def)
  have matches: "matchesTransaction g x"
    by (simp add: matchesTransaction_def g_def x_def)
  note fact = status_filter_default [where e = e and storeId = None and filters = None and tf = g
      and g = g and x = x]
  have "match_status g = statusMatch (optField status None)"
    using fact top by blast
  moreover have "statusMatch (Some ''voided'') = StatusIs ''voided''"
    using status_filter_default [where st = "Some ''voided''"] by simp
  moreover have "statusMatch (Some ''all'') = StatusIn [''completed'', ''pending'']"
    using status_filter_default [where st = "Some ''all''"] by simp
  ultimately show ?thesis using top matches unfolding e_def g_def x_def by blast
qed

text \<open>
  Claim C6 as stated says that the status \<open>all\<close> lifts the restriction. A store whose only
  transaction is a cancelled one, made ten minutes before the request, inside the window
  of the report: with status \<open>all\<close> the report counts no transaction and no sales.
\<close>

theorem status_all_counterexample:
  "\<exists>d. getDashboardMetrics
          \<lparr> transactions = [\<lparr> txn_id = ''t1'', store_id = ''s1'', items = [],
                               total_amount = Some 40, payment_method = Some ''cash'',
                               txn_status = ''cancelled'', order_source = None,
                               created_at = 1735770000000 \<rparr>],
            expenses = [], products = [], fails = (\<lambda>c. False) \<rparr>
          \<lparr> now = 1735770600000, localOffset = 0, toNumber = decimalNumber,
            parseDate = (\<lambda>s. None) \<rparr>
          (Some ''s1'')
          (Some \<lparr> dateRange = None, paymentMethod = None, orderSource = None,
                  status = Some ''all'', startDate = None, endDate = None,
                  month = None, year = None \<rparr>) = Inr d
        \<and> filterInfo d = \<lparr> rangeStart = 1733178600000, rangeEnd = 1735770600000 \<rparr>
        \<and> totalTransactions d = 0 \<and> totalSales d = 0"
proof -
  define x where "x = \<lparr> txn_id = ''t1'', store_id = ''s1'', items = [],
                               total_amount = Some (40::rat), payment_method = Some ''cash'',
                               txn_status = ''cancelled'', order_source = None,
                               created_at = 1735770000000 \<rparr>"
  define db where "db = \<lparr> transactions = [x], expenses = [], products = [],
                          fails = (\<lambda>c :: db_call. False) \<rparr>"
  define e where "e = \<lparr> now = 1735770600000, localOffset = 0, toNumber = decimalNumber,
                        parseDate = (\<lambda>s :: string. None :: instant option) \<rparr>"
  define f where "f = \<lparr> dateRange = None, paymentMethod = None, orderSource = None,
                  status = Some ''all'', startDate = None, endDate = None,
                  month = None, year = None \<rparr>"
  have period: "getDateFilter e (Some f) (getStoreTimezone (Some ''s1'')) = Inr None"
    by (simp add: getDateFilter_def numberTruthy_def truthy_def dateTruthy_def f_def)
  have monthly: "monthlyRange e (Some f) (getStoreTimezone (Some ''s1''))
                   = Inr (getThisMonthRange e (getStoreTimezone (Some ''s1'')))"
    by (simp add: monthlyRange_def optField_def numberTruthy_def f_def)
  have series: "salesByPeriodData db e (Some ''s1'') (Some f) None (primaryRange e None) = Inr None"
    by (simp add: salesByPeriodData_def optField_def truthy_def f_def)
  have "\<exists>d. getDashboardMetrics db e (Some ''s1'') (Some f) = Inr d"
    by (rule dashboard_returns [where pf = None
          and mr = "getThisMonthRange e (getStoreTimezone (Some ''s1''))" and sp = None])
       (simp_all add: period monthly series, simp_all add: db_def)
  then obtain d where d: "getDashboardMetrics db e (Some ''s1'') (Some f) = Inr d" ..
  obtain pf where "getDateFilter e (Some f) (getStoreTimezone (Some ''s1'')) = Inr pf"
    and info: "filterInfo d = primaryRange e pf"
    and sales: "totalSales d = sumAmounts (findTransactions db
                 (transactionFilter (Some ''s1'') (Some f) (rangeStart (primaryRange e pf))
                    (rangeEnd (primaryRange e pf))))"
    and txns: "totalTransactions d = length (findTransactions db
                 (transactionFilter (Some ''s1'') (Some f) (rangeStart (primaryRange e pf))
                    (rangeEnd (primaryRange e pf))))"
    using dashboard_fields [OF d] by blast
  then have pf: "pf = None" using period by simp
  have window: "primaryRange e None = \<lparr> rangeStart = 1733178600000, rangeEnd = 1735770600000 \<rparr>"
    using setDate_getDate [of e "now e" "- 30"] by (simp add: primaryRange_def e_def)
  have none: "findTransactions db (transactionFilter (Some ''s1'') (Some f) 1733178600000
                 1735770600000) = []"
    by (simp add: findTransactions_def transactionFilter_def matchesTransaction_def
          statusMatch_def optField_def truthy_def db_def x_def f_def)
  have "filterInfo d = \<lparr> rangeStart = 1733178600000, rangeEnd = 1735770600000 \<rparr>"
    using info pf window by simp
  moreover have "totalTransactions d = 0" using txns pf window none by simp
  moreover have "totalSales d = 0" using sales pf window none by (simp add: sumAmounts_def)
  ultimately show ?thesis using d unfolding db_def e_def f_def x_def by blast
qed


subsection \<open>Failures of the backing store\<close>







section \<open>Properties of the pure helpers\<close>

subsection \<open>Strings\<close>

lemma of_char_lowerChar:
  "(of_char (lowerChar c) :: nat) =
     (let n = of_char c
      in if (65 \<le> n \<and> n \<le> 90) \<or> (192 \<le> n \<and> n \<le> 222 \<and> n \<noteq> 215) then n + 32 else n)"
  unfolding lowerChar_def Let_def by (simp add: of_char_of)

lemma lowerChar_idem: "lowerChar (lowerChar c) = lowerChar c"
proof -
  have "(of_char (lowerChar (lowerChar c)) :: nat) = of_char (lowerChar c)"
    by (simp add: of_char_lowerChar Let_def)
  then show ?thesis by (simp only: of_char_eq_iff)
qed

lemma isWhiteSpace_lowerChar: "isWhiteSpace (lowerChar c) = isWhiteSpace c"
  unfolding isWhiteSpace_def by (simp add: of_char_lowerChar Let_def)

lemma toLowerCase_idem: "toLowerCase (toLowerCase s) = toLowerCase s"
  by (simp add: toLowerCase_def lowerChar_idem)

lemma toLowerCase_Nil_iff: "toLowerCase s = [] \<longleftrightarrow> s = []"
  by (simp add: toLowerCase_def)

lemma trim_toLowerCase: "trim (toLowerCase s) = toLowerCase (trim s)"
proof -
  have comp: "isWhiteSpace \<circ> lowerChar = isWhiteSpace"
    by (rule ext) (simp add: isWhiteSpace_lowerChar)
  show ?thesis
    unfolding trim_def toLowerCase_def
    by (simp add: dropWhile_map rev_map comp)
qed

lemma dropWhile_fixed: "xs = [] \<or> \<not> P (hd xs) \<Longrightarrow> dropWhile P xs = xs"
  by (cases xs) auto

lemma trim_idem: "trim (trim s) = trim s"
proof -
  define t where "t = dropWhile isWhiteSpace s"
  define u where "u = dropWhile isWhiteSpace (rev t)"
  have split: "rev t = takeWhile isWhiteSpace (rev t) @ u"
    unfolding u_def by simp
  have t_eq: "t = rev u @ rev (takeWhile isWhiteSpace (rev t))"
  proof -
    have "rev (rev t) = rev (takeWhile isWhiteSpace (rev t) @ u)"
      using split by simp
    then show ?thesis by simp
  qed
  have head: "rev u = [] \<or> \<not> isWhiteSpace (hd (rev u))"
  proof (cases "rev u = []")
    case True
    then show ?thesis by simp
  next
    case False
    then have "hd t = hd (rev u)"
      using t_eq by (metis hd_append2)
    moreover have "t \<noteq> []"
      using False t_eq by auto
    then have "\<not> isWhiteSpace (hd t)"
      unfolding t_def by (rule hd_dropWhile)
    ultimately show ?thesis by simp
  qed
  have "dropWhile isWhiteSpace (rev u) = rev u"
    using head by (rule dropWhile_fixed)
  moreover have "dropWhile isWhiteSpace u = u"
    unfolding u_def by simp
  ultimately have "trim (rev u) = rev u"
    unfolding trim_def by simp
  moreover have "trim s = rev u"
    unfolding trim_def u_def t_def by simp
  ultimately show ?thesis by simp
qed

lemma key_fixed: "toLowerCase (trim (toLowerCase (trim s))) = toLowerCase (trim s)"
  by (simp add: trim_toLowerCase trim_idem toLowerCase_idem)

subsection \<open>normalizePaymentMethod\<close>

lemma canonical_keys:
  "toLowerCase (trim ''pos'') = ''pos''"
  "toLowerCase (trim ''naira_transfer'') = ''naira_transfer''"
  "toLowerCase (trim ''crypto_payment'') = ''crypto_payment''"
  "toLowerCase (trim ''cash'') = ''cash''"
  "toLowerCase (trim ''unknown'') = ''unknown''"
  by code_simp+

lemma toLowerCase_canonical:
  "toLowerCase ''pos'' = ''pos''"
  "toLowerCase ''naira_transfer'' = ''naira_transfer''"
  "toLowerCase ''crypto_payment'' = ''crypto_payment''"
  "toLowerCase ''cash'' = ''cash''"
  "toLowerCase ''unknown'' = ''unknown''"
  by code_simp+

lemma normalize_canonical:
  "normalizePaymentMethod (Some ''pos'') = ''pos''"
  "normalizePaymentMethod (Some ''naira_transfer'') = ''naira_transfer''"
  "normalizePaymentMethod (Some ''crypto_payment'') = ''crypto_payment''"
  "normalizePaymentMethod (Some ''cash'') = ''cash''"
  "normalizePaymentMethod (Some ''unknown'') = ''unknown''"
  by (simp_all add: normalizePaymentMethod_def orElse_def canonical_keys)

lemma normalize_cases:
  "normalizePaymentMethod x \<in> {''pos'', ''naira_transfer'', ''crypto_payment'', ''cash'', ''unknown''}
   \<or> (normalizePaymentMethod x = toLowerCase (trim (orElse x ''unknown''))
      \<and> normalizePaymentMethod x \<noteq> [])"
  unfolding normalizePaymentMethod_def Let_def by auto

lemma normalize_nonempty: "normalizePaymentMethod m \<noteq> []"
  using normalize_cases [of m] by auto

lemma normalize_lower: "toLowerCase (normalizePaymentMethod m) = normalizePaymentMethod m"
  using normalize_cases [of m] toLowerCase_canonical by (auto simp: toLowerCase_idem)

lemma trim_blank: "\<forall>c \<in> set s. isWhiteSpace c \<Longrightarrow> trim s = []"
proof -
  assume "\<forall>c \<in> set s. isWhiteSpace c"
  then have d: "dropWhile isWhiteSpace s = []" by (induction s) auto
  show ?thesis unfolding trim_def d by simp
qed

lemma normalize_blank: "\<forall>c \<in> set s. isWhiteSpace c \<Longrightarrow> normalizePaymentMethod (Some s) = ''unknown''"
proof (cases "s = []")
  case True
  then show ?thesis by (simp add: normalizePaymentMethod_def orElse_def canonical_keys)
next
  case False
  assume "\<forall>c \<in> set s. isWhiteSpace c"
  then have "trim s = []" by (rule trim_blank)
  then show ?thesis using False
    by (simp add: normalizePaymentMethod_def orElse_def toLowerCase_def)
qed

lemma collapse_keys:
  "\<forall>k \<in> dom m. k \<noteq> [] \<and> toLowerCase k = k \<Longrightarrow>
   \<forall>k \<in> dom (collapsePaymentMethods m rows). k \<noteq> [] \<and> toLowerCase k = k"
proof (induction rows arbitrary: m)
  case Nil
  then show ?case by simp
next
  case (Cons row rows)
  obtain item_id totalAmount where row: "row = (item_id, totalAmount)" by (cases row)
  define m' where "m' = m(normalizePaymentMethod item_id \<mapsto>
              (case m (normalizePaymentMethod item_id) of None \<Rightarrow> 0 | Some v \<Rightarrow> v) + totalAmount)"
  have "\<forall>k \<in> dom m'. k \<noteq> [] \<and> toLowerCase k = k"
    using Cons.prems by (auto simp: m'_def normalize_nonempty normalize_lower)
  then have "\<forall>k \<in> dom (collapsePaymentMethods m' rows). k \<noteq> [] \<and> toLowerCase k = k"
    by (rule Cons.IH)
  then show ?case by (simp add: row m'_def Let_def)
qed


text \<open>
  Claim C10. For every input of \<open>normalizePaymentMethod\<close>, also an absent, an empty or a
  blank method, the result is a non-empty key that lower-casing leaves unchanged; a
  missing, empty or blank method gives \<open>unknown\<close>; hence no key of the payment-method
  breakdown built by the dashboard is empty.
\<close>

theorem normalizePaymentMethod_never_empty:
  "normalizePaymentMethod m \<noteq> []
   \<and> toLowerCase (normalizePaymentMethod m) = normalizePaymentMethod m
   \<and> normalizePaymentMethod None = ''unknown''
   \<and> normalizePaymentMethod (Some []) = ''unknown''
   \<and> ((\<forall>c \<in> set s. isWhiteSpace c) \<longrightarrow> normalizePaymentMethod (Some s) = ''unknown'')
   \<and> (\<forall>k \<in> dom (collapsePaymentMethods Map.empty rows). k \<noteq> [] \<and> toLowerCase k = k)"
proof -
  have "normalizePaymentMethod None = ''unknown''"
    by (simp add: normalizePaymentMethod_def orElse_def canonical_keys)
  moreover have "normalizePaymentMethod (Some []) = ''unknown''"
    by (simp add: normalizePaymentMethod_def orElse_def canonical_keys)
  moreover have "\<forall>k \<in> dom (collapsePaymentMethods Map.empty rows). k \<noteq> [] \<and> toLowerCase k = k"
    by (rule collapse_keys) simp
  ultimately show ?thesis
    using normalize_nonempty normalize_lower normalize_blank by blast
qed

theorem normalizePaymentMethod_never_empty_witness:
  "list_all isWhiteSpace ''  ''
   \<and> normalizePaymentMethod (Some ''  '') = ''unknown''
   \<and> ''pos'' \<in> dom (collapsePaymentMethods Map.empty [(None, 5), (Some '' CARD'', 3)])
   \<and> ''pos'' \<noteq> []"
proof -
  have blank: "\<forall>c \<in> set ''  ''. isWhiteSpace c" by (simp add: isWhiteSpace_def)
  have n1: "normalizePaymentMethod None = ''unknown''" and n2: "normalizePaymentMethod (Some '' CARD'') = ''pos''"
    by code_simp+
  have d: "''pos'' \<in> dom (collapsePaymentMethods Map.empty [(None, 5), (Some '' CARD'', 3)])"
    by (simp add: n1 n2)
  from normalizePaymentMethod_never_empty [where s = "''  ''" and rows = "[(None, 5), (Some '' CARD'', 3)]"]
  have "normalizePaymentMethod (Some ''  '') = ''unknown''"
    and "\<forall>k \<in> dom (collapsePaymentMethods Map.empty [(None, 5), (Some '' CARD'', 3)]). k \<noteq> [] \<and> toLowerCase k = k"
    using blank by blast+
  then show ?thesis using blank d by (simp add: list_all_iff)
qed


text \<open>
  Claim C9, as the code has it. \<open>normalizePaymentMethod\<close> is idempotent, and on a string
  \<open>x\<close> it is decided by the trimmed, lower-cased key: the card aliases give \<open>pos\<close>, the
  transfer aliases \<open>naira_transfer\<close>, the crypto aliases \<open>crypto_payment\<close>, the cash
  aliases \<open>cash\<close>, an empty key gives \<open>unknown\<close>, and every other key is returned
  as it is.
\<close>

theorem normalizePaymentMethod_idempotent:
  "normalizePaymentMethod (Some (normalizePaymentMethod m)) = normalizePaymentMethod m
   \<and> normalizePaymentMethod (Some x) =
       (let key = toLowerCase (trim x)
        in if key \<in> {''card'', ''pos'', ''bank_card'', ''debit_card'', ''credit_card''} then ''pos''
           else if key \<in> {''transfer'', ''naira_transfer'', ''bank_transfer''} then ''naira_transfer''
           else if key \<in> {''crypto'', ''crypto_payment''} then ''crypto_payment''
           else if key \<in> {''cash_on_delivery'', ''cod'', ''cash''} then ''cash''
           else if key = [] then ''unknown'' else key)"
proof -
  have idem: "normalizePaymentMethod (Some (normalizePaymentMethod m)) = normalizePaymentMethod m"
  proof -
    consider (canon) "normalizePaymentMethod m \<in> {''pos'', ''naira_transfer'', ''crypto_payment'', ''cash'', ''unknown''}"
      | (other) "normalizePaymentMethod m = toLowerCase (trim (orElse m ''unknown''))" "normalizePaymentMethod m \<noteq> []"
      using normalize_cases by blast
    then show ?thesis
    proof cases
      case canon
      then show ?thesis using normalize_canonical by auto
    next
      case other
      define k where "k = toLowerCase (trim (orElse m ''unknown''))"
      have "toLowerCase (trim k) = k" by (simp add: k_def key_fixed)
      moreover have "k \<noteq> []" using other by (simp add: k_def)
      then have "orElse (Some k) ''unknown'' = k" by (simp add: orElse_def)
      moreover have "normalizePaymentMethod m = k" using other by (simp add: k_def)
      ultimately show ?thesis
        by (simp add: normalizePaymentMethod_def Let_def k_def)
    qed
  qed
  have table: "normalizePaymentMethod (Some x) =
       (let key = toLowerCase (trim x)
        in if key \<in> {''card'', ''pos'', ''bank_card'', ''debit_card'', ''credit_card''} then ''pos''
           else if key \<in> {''transfer'', ''naira_transfer'', ''bank_transfer''} then ''naira_transfer''
           else if key \<in> {''crypto'', ''crypto_payment''} then ''crypto_payment''
           else if key \<in> {''cash_on_delivery'', ''cod'', ''cash''} then ''cash''
           else if key = [] then ''unknown'' else key)"
  proof (cases "x = []")
    case True
    have "trim [] = []" by (simp add: trim_def)
    then show ?thesis using True normalize_blank [of "[]"] by (simp add: toLowerCase_def)
  next
    case False
    then show ?thesis by (simp add: normalizePaymentMethod_def orElse_def Let_def)
  qed
  show ?thesis using idem table by blast
qed


text \<open>
  Claim C9 as stated says that every string outside the alias table passes through
  trimmed and lower-cased. A blank string does not: its key is empty, and the result
  is \<open>unknown\<close>.
\<close>

theorem normalizePaymentMethod_blank_counterexample:
  "toLowerCase (trim '' '') \<notin> {''card'', ''pos'', ''bank_card'', ''debit_card'', ''credit_card'',
       ''transfer'', ''naira_transfer'', ''bank_transfer'', ''crypto'', ''crypto_payment'',
       ''cash_on_delivery'', ''cod'', ''cash''}
   \<and> normalizePaymentMethod (Some '' '') \<noteq> toLowerCase (trim '' '')"
  by code_simp

subsection \<open>calculatePercentageChange\<close>





end
